theory Spec2Isabelle
  imports Main "HOL-Library.AList"
begin

section \<open>Data model (lib/types/project.ts, lib/memory/session-manager.ts)\<close>

text \<open>
  TypeScript string unions become datatypes, interfaces become records, an optional field
  \<open>f?: T\<close> becomes \<open>T option\<close> (\<open>None\<close> is \<open>undefined\<close>), \<open>number\<close> timestamps are
  integers (milliseconds, as \<open>Date.now()\<close> returns them).  Record fields live in one name
  space in HOL, so a field name that several interfaces share carries a short prefix.
\<close>

datatype ProjectPhase = Requirements | Design | Tasks | Complete

datatype Role = User | Assistant | System

record DocMetadata =
  dm_createdAt :: int
  dm_updatedAt :: int
  dm_version :: int

record TechStack =
  frontend :: "string list option"
  backend :: "string list option"
  database :: "string list option"
  deployment :: "string list option"
  other :: "string list option"

record Theme =
  style :: "string option"
  colors :: "string list option"
  preferences :: "string option"

record Usage =
  expectedUsers :: "string option"
  scalability :: "string option"
  performance :: "string option"

record RequirementsData =
  rq_projectName :: string
  rq_description :: string
  techStack :: TechStack
  features :: "string list"
  targetAudience :: string
  constraints :: "string list"
  theme :: Theme
  usage :: Usage
  timeline :: "string option"
  budget :: "string option"
  rq_metadata :: DocMetadata

record Component =
  cp_name :: string
  responsibility :: string
  cp_dependencies :: "string list"

record Architecture =
  overview :: string
  components :: "Component list"
  dataFlow :: string

record Field =
  fd_name :: string
  fd_type :: string
  fd_description :: string

record DataModel =
  mo_name :: string
  mo_fields :: "Field list"
  relationships :: "string list"

record Endpoint =
  ep_method :: string
  ep_path :: string
  ep_description :: string
  requestBody :: "string option"
  ep_response :: string

record ApiDesign =
  endpoints :: "Endpoint list"
  authentication :: "string option"
  rateLimit :: "string option"

record TechnologyChoices =
  tc_frontend :: string
  tc_backend :: string
  tc_database :: string
  tc_deployment :: string
  rationale :: string

record DeploymentStrategy =
  environment :: string
  cicd :: string
  monitoring :: string

record DesignMetadata = DocMetadata +
  basedOnRequirements :: string

record DesignData =
  architecture :: Architecture
  dataModels :: "DataModel list"
  apiDesign :: ApiDesign
  technologyChoices :: TechnologyChoices
  deploymentStrategy :: DeploymentStrategy
  ds_metadata :: DesignMetadata

datatype TaskCategory = Setup | Feature | Testing | Deployment | Documentation

record Task =
  tk_id :: string
  tk_title :: string
  tk_description :: string
  category :: TaskCategory
  tk_dependencies :: "string list"
  estimatedTime :: "string option"
  acceptanceCriteria :: "string list"
  technicalDetails :: "string option"
  order :: int

record TaskPhase =
  tp_name :: string
  taskIds :: "string list"
  tp_description :: string

record TasksMetadata = DocMetadata +
  basedOnDesign :: string

record TasksData =
  tasklist :: "Task list"
  totalEstimate :: "string option"
  phases :: "TaskPhase list"
  tk_metadata :: TasksMetadata

record PhaseEntry =
  pe_role :: Role
  pe_content :: string
  pe_timestamp :: int
  pe_phase :: ProjectPhase

record ProjectMetadata =
  pm_createdAt :: int
  pm_updatedAt :: int
  lastPhaseChange :: int

record ProjectSession =
  ps_sessionId :: string
  projectName :: string
  currentPhase :: ProjectPhase
  requirements :: "RequirementsData option"
  design :: "DesignData option"
  tasks :: "TasksData option"
  ps_conversationHistory :: "PhaseEntry list"
  questionsAsked :: "string list"
  userAnswers :: "(string \<times> string) list"
  ps_metadata :: ProjectMetadata

record Entry =
  role :: Role
  content :: string
  timestamp :: int

record ContextMetadata =
  createdAt :: int
  updatedAt :: int
  messageCount :: nat

record ChatContext =
  sessionId :: string
  projectSession :: "ProjectSession option"
  conversationHistory :: "Entry list"
  metadata :: ContextMetadata

text \<open>
  The class \<open>TracerMemoryManager\<close>.  Its \<open>Map<string, ChatContext>\<close> is an association
  list in insertion order: \<open>Map.get\<close> is \<^const>\<open>map_of\<close>, \<open>Map.set\<close> is
  \<^const>\<open>AList.update\<close> (an existing key keeps its place, a new key goes to the end),
  \<open>Map.delete\<close> is \<^const>\<open>AList.delete\<close>, \<open>Map.keys\<close> is \<open>map fst\<close>.  A JavaScript
  \<open>Map\<close> holds each key once: \<open>distinct (map fst (sessions m))\<close>, the invariant
  \<open>wellFormed\<close>, which every method below and the route handler preserve.

  The methods mutate the manager in place; here each takes the manager and returns the new
  one, next to its return value when it has one.  \<open>Date.now()\<close> is the argument \<open>now\<close>.
  The setters are typed to take a payload, but the route handler passes them
  \<open>projectSession.requirements!\<close> (and likewise for design and tasks), an optional field
  whose non-null assertion is erased at run time; their payload argument is therefore an
  option, stored as it comes.
  A session object handed out by \<open>getSession\<close> is the object stored in the map, so a field
  assignment to it is an update of the stored entry.
\<close>

record TracerMemoryManager =
  sessions :: "(string \<times> ChatContext) list"
  maxMessagesPerSession :: int

section \<open>The memory manager\<close>

definition newTracerMemoryManager :: "int \<Rightarrow> TracerMemoryManager" where
  "newTracerMemoryManager cap = \<lparr>sessions = [], maxMessagesPerSession = cap\<rparr>"

definition defaultMaxMessages :: int where
  "defaultMaxMessages = 50"

definition createSession :: "string \<Rightarrow> int \<Rightarrow> TracerMemoryManager \<Rightarrow> ChatContext \<times> TracerMemoryManager" where
  "createSession sid now m =
     (let context = \<lparr>sessionId = sid, projectSession = None, conversationHistory = [],
                      metadata = \<lparr>createdAt = now, updatedAt = now, messageCount = 0\<rparr>\<rparr>
      in (context, m\<lparr>sessions := AList.update sid context (sessions m)\<rparr>))"

definition getSession :: "string \<Rightarrow> int \<Rightarrow> TracerMemoryManager \<Rightarrow> ChatContext \<times> TracerMemoryManager" where
  "getSession sid now m =
     (case map_of (sessions m) sid of
        Some existing \<Rightarrow> (existing, m)
      | None \<Rightarrow> createSession sid now m)"

text \<open>The record that \<open>createSession\<close> stores for a key: empty log, no project session.\<close>

definition freshSession :: "string \<Rightarrow> int \<Rightarrow> ChatContext" where
  "freshSession sid now =
     \<lparr>sessionId = sid, projectSession = None, conversationHistory = [],
      metadata = \<lparr>createdAt = now, updatedAt = now, messageCount = 0\<rparr>\<rparr>"

text \<open>
  \<open>Array.prototype.slice(start)\<close> with one argument: a negative \<open>start\<close> counts from the
  end and is clamped at the front, a non-negative one is clamped at the length.  In
  JavaScript \<open>-0\<close> is not negative, so \<open>slice(-0)\<close> is \<open>slice(0)\<close>: the whole array.
\<close>

definition slice :: "int \<Rightarrow> 'a list \<Rightarrow> 'a list" where
  "slice start xs =
     (let len = int (length xs);
          k = (if start < 0 then max (len + start) 0 else min start len)
      in drop (nat k) xs)"

definition addMessage :: "string \<Rightarrow> Role \<Rightarrow> string \<Rightarrow> int \<Rightarrow> TracerMemoryManager \<Rightarrow> TracerMemoryManager" where
  "addMessage sid r c now m =
     (let (session, m1) = getSession sid now m;
          pushed = conversationHistory session @ [\<lparr>role = r, content = c, timestamp = now\<rparr>];
          trimmed = (if int (length pushed) > maxMessagesPerSession m1
                     then slice (- maxMessagesPerSession m1) pushed else pushed);
          session' = session\<lparr>conversationHistory := trimmed,
                       metadata := (metadata session)\<lparr>updatedAt := now,
                                      messageCount := messageCount (metadata session) + 1\<rparr>\<rparr>
      in m1\<lparr>sessions := AList.update sid session' (sessions m1)\<rparr>)"

definition getConversationHistory :: "TracerMemoryManager \<Rightarrow> string \<Rightarrow> Entry list" where
  "getConversationHistory m sid =
     (case map_of (sessions m) sid of None \<Rightarrow> [] | Some session \<Rightarrow> conversationHistory session)"

definition initializeProjectSession ::
  "string \<Rightarrow> string \<Rightarrow> int \<Rightarrow> TracerMemoryManager \<Rightarrow> ProjectSession \<times> TracerMemoryManager" where
  "initializeProjectSession sid pname now m =
     (let (session, m1) = getSession sid now m;
          ps = \<lparr>ps_sessionId = sid, projectName = pname, currentPhase = Requirements,
                requirements = None, design = None, tasks = None,
                ps_conversationHistory = [], questionsAsked = [], userAnswers = [],
                ps_metadata = \<lparr>pm_createdAt = now, pm_updatedAt = now, lastPhaseChange = now\<rparr>\<rparr>
      in (ps, m1\<lparr>sessions := AList.update sid (session\<lparr>projectSession := Some ps\<rparr>) (sessions m1)\<rparr>))"

definition getProjectSession :: "TracerMemoryManager \<Rightarrow> string \<Rightarrow> ProjectSession option" where
  "getProjectSession m sid =
     (case map_of (sessions m) sid of None \<Rightarrow> None | Some session \<Rightarrow> projectSession session)"

text \<open>
  The four setters share one shape: \<open>getSession\<close> (which creates the session when the key
  is unknown), then a guarded assignment to the project session.  With no project session
  the body of the \<open>if\<close> is skipped, \<open>sessions.set\<close> included.
\<close>

definition updateProjectPhase :: "string \<Rightarrow> ProjectPhase \<Rightarrow> int \<Rightarrow> TracerMemoryManager \<Rightarrow> TracerMemoryManager" where
  "updateProjectPhase sid ph now m =
     (let (session, m1) = getSession sid now m
      in case projectSession session of
           Some ps \<Rightarrow>
             let ps' = ps\<lparr>currentPhase := ph,
                         ps_metadata := (ps_metadata ps)\<lparr>pm_updatedAt := now, lastPhaseChange := now\<rparr>\<rparr>
             in m1\<lparr>sessions := AList.update sid (session\<lparr>projectSession := Some ps'\<rparr>) (sessions m1)\<rparr>
         | None \<Rightarrow> m1)"

definition setRequirements :: "string \<Rightarrow> RequirementsData option \<Rightarrow> int \<Rightarrow> TracerMemoryManager \<Rightarrow> TracerMemoryManager" where
  "setRequirements sid rq now m =
     (let (session, m1) = getSession sid now m
      in case projectSession session of
           Some ps \<Rightarrow>
             let ps' = ps\<lparr>requirements := rq,
                         ps_metadata := (ps_metadata ps)\<lparr>pm_updatedAt := now\<rparr>\<rparr>
             in m1\<lparr>sessions := AList.update sid (session\<lparr>projectSession := Some ps'\<rparr>) (sessions m1)\<rparr>
         | None \<Rightarrow> m1)"

definition setDesign :: "string \<Rightarrow> DesignData option \<Rightarrow> int \<Rightarrow> TracerMemoryManager \<Rightarrow> TracerMemoryManager" where
  "setDesign sid ds now m =
     (let (session, m1) = getSession sid now m
      in case projectSession session of
           Some ps \<Rightarrow>
             let ps' = ps\<lparr>design := ds,
                         ps_metadata := (ps_metadata ps)\<lparr>pm_updatedAt := now\<rparr>\<rparr>
             in m1\<lparr>sessions := AList.update sid (session\<lparr>projectSession := Some ps'\<rparr>) (sessions m1)\<rparr>
         | None \<Rightarrow> m1)"

definition setTasks :: "string \<Rightarrow> TasksData option \<Rightarrow> int \<Rightarrow> TracerMemoryManager \<Rightarrow> TracerMemoryManager" where
  "setTasks sid ts now m =
     (let (session, m1) = getSession sid now m
      in case projectSession session of
           Some ps \<Rightarrow>
             let ps' = ps\<lparr>tasks := ts,
                         ps_metadata := (ps_metadata ps)\<lparr>pm_updatedAt := now\<rparr>\<rparr>
             in m1\<lparr>sessions := AList.update sid (session\<lparr>projectSession := Some ps'\<rparr>) (sessions m1)\<rparr>
         | None \<Rightarrow> m1)"

definition addAskedQuestion :: "string \<Rightarrow> string \<Rightarrow> int \<Rightarrow> TracerMemoryManager \<Rightarrow> TracerMemoryManager" where
  "addAskedQuestion sid q now m =
     (let (session, m1) = getSession sid now m
      in case projectSession session of
           Some ps \<Rightarrow>
             let ps' = ps\<lparr>questionsAsked := questionsAsked ps @ [q]\<rparr>
             in m1\<lparr>sessions := AList.update sid (session\<lparr>projectSession := Some ps'\<rparr>) (sessions m1)\<rparr>
         | None \<Rightarrow> m1)"

definition addUserAnswer :: "string \<Rightarrow> string \<Rightarrow> string \<Rightarrow> int \<Rightarrow> TracerMemoryManager \<Rightarrow> TracerMemoryManager" where
  "addUserAnswer sid q a now m =
     (let (session, m1) = getSession sid now m
      in case projectSession session of
           Some ps \<Rightarrow>
             let ps' = ps\<lparr>userAnswers := AList.update q a (userAnswers ps)\<rparr>
             in m1\<lparr>sessions := AList.update sid (session\<lparr>projectSession := Some ps'\<rparr>) (sessions m1)\<rparr>
         | None \<Rightarrow> m1)"

text \<open>
  \<open>isPhaseComplete\<close>: \<open>!!x\<close> on an optional object field is "the field is set".  The
  \<open>default\<close> branch of the \<open>switch\<close> has no value of \<open>ProjectPhase\<close> left to match.
\<close>

definition isPhaseComplete :: "TracerMemoryManager \<Rightarrow> string \<Rightarrow> ProjectPhase \<Rightarrow> bool" where
  "isPhaseComplete m sid ph =
     (case map_of (sessions m) sid of
        None \<Rightarrow> False
      | Some session \<Rightarrow>
          (case projectSession session of
             None \<Rightarrow> False
           | Some ps \<Rightarrow>
               (case ph of
                  Requirements \<Rightarrow> requirements ps \<noteq> None
                | Design \<Rightarrow> design ps \<noteq> None
                | Tasks \<Rightarrow> tasks ps \<noteq> None
                | Complete \<Rightarrow> requirements ps \<noteq> None \<and> design ps \<noteq> None \<and> tasks ps \<noteq> None)))"

definition clearSession :: "string \<Rightarrow> TracerMemoryManager \<Rightarrow> TracerMemoryManager" where
  "clearSession sid m = m\<lparr>sessions := AList.delete sid (sessions m)\<rparr>"

definition clearAllSessions :: "TracerMemoryManager \<Rightarrow> TracerMemoryManager" where
  "clearAllSessions m = m\<lparr>sessions := []\<rparr>"

definition exportSession :: "TracerMemoryManager \<Rightarrow> string \<Rightarrow> ChatContext option" where
  "exportSession m sid = map_of (sessions m) sid"

definition importSession :: "ChatContext \<Rightarrow> TracerMemoryManager \<Rightarrow> TracerMemoryManager" where
  "importSession context m = m\<lparr>sessions := AList.update (sessionId context) context (sessions m)\<rparr>"

definition getActiveSessions :: "TracerMemoryManager \<Rightarrow> string list" where
  "getActiveSessions m = map fst (sessions m)"

text \<open>
  \<open>pruneOldSessions\<close>: the \<open>for ... of this.sessions.entries()\<close> loop visits the entries
  in insertion order; deleting the entry being visited does not disturb the iteration, so
  the loop runs over the entries present at its start.  \<open>pruneLoop\<close> is the loop, with
  the map and the counter as its state.  \<open>hoursOld\<close> (24 when the caller leaves it out)
  is a whole number of hours.
\<close>

fun pruneLoop :: "int \<Rightarrow> (string \<times> ChatContext) list \<Rightarrow> (string \<times> ChatContext) list \<Rightarrow> nat
                    \<Rightarrow> (string \<times> ChatContext) list \<times> nat" where
  "pruneLoop cutoffTime [] ss prunedCount = (ss, prunedCount)"
| "pruneLoop cutoffTime ((sid, context) # rest) ss prunedCount =
     (if updatedAt (metadata context) < cutoffTime
      then pruneLoop cutoffTime rest (AList.delete sid ss) (prunedCount + 1)
      else pruneLoop cutoffTime rest ss prunedCount)"

definition pruneOldSessions :: "int \<Rightarrow> int \<Rightarrow> TracerMemoryManager \<Rightarrow> nat \<times> TracerMemoryManager" where
  "pruneOldSessions hoursOld now m =
     (let cutoffTime = now - hoursOld * 60 * 60 * 1000;
          (ss, prunedCount) = pruneLoop cutoffTime (sessions m) (sessions m) 0
      in (prunedCount, m\<lparr>sessions := ss\<rparr>))"


text \<open>The invariant of the map: each key occurs once.\<close>

definition wellFormed :: "TracerMemoryManager \<Rightarrow> bool" where
  "wellFormed m \<longleftrightarrow> distinct (map fst (sessions m))"

section \<open>The route handler (app/api/chat/route.ts)\<close>

text \<open>
  What the handler does not decide itself is its environment, fixed for one request:
  whether an API key is configured, whether the two constructors in \<open>initializeAgents\<close>
  return, what \<open>agent.chat\<close> and the three document generators return or throw, and the
  clock.  \<open>dateNow env i\<close> is the reading of \<open>Date.now()\<close> at the \<open>i\<close>-th point of a
  request at which the handler, or the manager method it calls there, reads the clock.
  A thrown value is an \<open>Error\<close> with its message or anything else.
  The calls made to the document generator are returned as a list, so that what the
  generator is invoked with can be stated.
\<close>

datatype Thrown = ErrorObj string | OtherThrown

record UIPart =
  p_type :: string
  p_text :: "string option"

record UIMessage =
  m_id :: string
  m_role :: Role
  parts :: "UIPart list"

record RequestBody =
  messages :: "UIMessage list option"
  rb_sessionId :: "string option"

datatype GenCall =
    GenerateRequirements ProjectSession
  | GenerateDesign string ProjectSession
  | GenerateTasks string string

record Env =
  apiKey :: bool
  newTracerAgent :: bool
  newDocumentGeneratorChain :: bool
  dateNow :: "nat \<Rightarrow> int"
  chat :: "string \<Rightarrow> string \<Rightarrow> Entry list \<Rightarrow> Thrown + string"
  generate :: "GenCall \<Rightarrow> Thrown + string"

text \<open>
  The module state of the route: the lazily created \<open>agent\<close> and \<open>documentGenerator\<close>
  (\<open>False\<close> is \<open>null\<close>) and the singleton of \<open>getMemoryManager()\<close>.  The singleton is
  held by value; before its first use it is \<open>newTracerMemoryManager defaultMaxMessages\<close>,
  which is what \<open>getMemoryManager\<close> creates then.
\<close>

record Route =
  agent :: bool
  documentGenerator :: bool
  memoryManager :: TracerMemoryManager

record ResponseData =
  rd_id :: string
  rd_role :: Role
  rd_content :: string
  rd_parts :: "UIPart list"
  document :: "(ProjectPhase \<times> string) option"
  rd_projectSession :: "ProjectSession option"

datatype Body =
    PlainText string
  | ErrorJson string "string option"
  | MessageJson ResponseData

record Response =
  status :: nat
  body :: Body

definition initializeAgents :: "Env \<Rightarrow> Route \<Rightarrow> Thrown option \<times> Route" where
  "initializeAgents env st =
     (if \<not> agent st then
        (if \<not> newTracerAgent env
         then (Some (ErrorObj ''AI service initialization failed. Check your API key configuration.''), st)
         else if \<not> newDocumentGeneratorChain env
         then (Some (ErrorObj ''AI service initialization failed. Check your API key configuration.''),
               st\<lparr>agent := True\<rparr>)
         else (None, st\<lparr>agent := True, documentGenerator := True\<rparr>))
      else (None, st))"

fun showNat :: "nat \<Rightarrow> string" where
  "showNat n = (if n < 10 then [char_of (48 + n)] else showNat (n div 10) @ [char_of (48 + n mod 10)])"

declare showNat.simps [simp del]

definition showInt :: "int \<Rightarrow> string" where
  "showInt i = (if i < 0 then ''-'' @ showNat (nat (- i)) else showNat (nat i))"

definition effectiveSessionId :: "string option \<Rightarrow> int \<Rightarrow> string" where
  "effectiveSessionId sid now =
     (case sid of
        Some s \<Rightarrow> if s = [] then ''session-'' @ showInt now else s
      | None \<Rightarrow> ''session-'' @ showInt now)"

definition userText :: "UIMessage \<Rightarrow> string" where
  "userText lastMessage =
     (case find (\<lambda>p. p_type p = ''text'') (parts lastMessage) of
        None \<Rightarrow> []
      | Some p \<Rightarrow> (case p_text p of None \<Rightarrow> [] | Some t \<Rightarrow> t))"

text \<open>
  The transition notes, as the source file has them; a character outside ASCII is
  written as its UTF-8 bytes.
\<close>

definition checkMark :: string where
  "checkMark = [CHR 0xC3, CHR 0xA2, CHR 0xC5, CHR 0x93, CHR 0xE2, CHR 0x80, CHR 0xA6]"

definition partyMark :: string where
  "partyMark = [CHR 0xC3, CHR 0xB0, CHR 0xC5, CHR 0xB8, CHR 0xC5, CHR 0xBD, CHR 0xE2, CHR 0x80, CHR 0xB0]"

definition requirementsNote :: string where
  "requirementsNote = [CHR 0x0A, CHR 0x0A] @ checkMark
     @ '' **Requirements.md generated!** You can download it below.'' @ [CHR 0x0A, CHR 0x0A]
     @ ''Now let's move to the design phase. I'll help you create a system architecture.''"

definition designNote :: string where
  "designNote = [CHR 0x0A, CHR 0x0A] @ checkMark
     @ '' **Design.md generated!** You can download it below.'' @ [CHR 0x0A, CHR 0x0A]
     @ ''Now let's break this down into tasks. I'll create a detailed task list.''"

definition tasksNote :: string where
  "tasksNote = [CHR 0x0A, CHR 0x0A] @ checkMark
     @ '' **Tasks.md generated!** You can download it below.'' @ [CHR 0x0A, CHR 0x0A] @ partyMark
     @ '' All three documents are ready! You can now hand these off to AI agents like Cursor, Windsurf, or Claude for implementation.''"

fun join :: "string \<Rightarrow> string list \<Rightarrow> string" where
  "join sep [] = []"
| "join sep [x] = x"
| "join sep (x # y # ys) = x @ sep @ join sep (y # ys)"

definition techStackStr :: "ProjectSession \<Rightarrow> string" where
  "techStackStr ps =
     (case requirements ps of
        None \<Rightarrow> ''Not specified''
      | Some rq \<Rightarrow>
          (case frontend (techStack rq) of
             Some fe \<Rightarrow> join '', '' fe
           | None \<Rightarrow> ''Not specified''))"

text \<open>
  The block guarded by \<open>projectSession && agents.documentGenerator\<close>.  \<open>ps\<close> is the
  handler's \<open>projectSession\<close>, the object stored in the session; nothing writes to it
  between the handler reading it and this block.  Each branch is a \<open>try\<close> whose \<open>catch\<close>
  only logs: when the generator throws, the statements after the call are skipped.  The
  result is the reply text, \<open>generatedDocument\<close>, the generator calls made and the manager.
\<close>

definition generateDocuments ::
  "Env \<Rightarrow> string \<Rightarrow> ProjectSession \<Rightarrow> string \<Rightarrow> TracerMemoryManager
     \<Rightarrow> string \<times> (ProjectPhase \<times> string) option \<times> GenCall list \<times> TracerMemoryManager" where
  "generateDocuments env sid ps response m =
     (if currentPhase ps = Requirements \<and> isPhaseComplete m sid Requirements then
        (case generate env (GenerateRequirements ps) of
           Inr requirementsDoc \<Rightarrow>
             (let m1 = setRequirements sid (requirements ps) (dateNow env 4) m;
                  m2 = updateProjectPhase sid Design (dateNow env 5) m1
              in (response @ requirementsNote, Some (Requirements, requirementsDoc),
                  [GenerateRequirements ps], m2))
         | Inl e \<Rightarrow> (response, None, [GenerateRequirements ps], m))
      else if currentPhase ps = Design \<and> isPhaseComplete m sid Design then
        (case generate env (GenerateDesign (techStackStr ps) ps) of
           Inr designDoc \<Rightarrow>
             (let m1 = setDesign sid (design ps) (dateNow env 4) m;
                  m2 = updateProjectPhase sid Tasks (dateNow env 5) m1
              in (response @ designNote, Some (Design, designDoc),
                  [GenerateDesign (techStackStr ps) ps], m2))
         | Inl e \<Rightarrow> (response, None, [GenerateDesign (techStackStr ps) ps], m))
      else if currentPhase ps = Tasks \<and> isPhaseComplete m sid Tasks then
        (case generate env (GenerateTasks ''Design document'' ''Requirements document'') of
           Inr tasksDoc \<Rightarrow>
             (let m1 = setTasks sid (tasks ps) (dateNow env 4) m;
                  m2 = updateProjectPhase sid Complete (dateNow env 5) m1
              in (response @ tasksNote, Some (Tasks, tasksDoc),
                  [GenerateTasks ''Design document'' ''Requirements document''], m2))
         | Inl e \<Rightarrow> (response, None, [GenerateTasks ''Design document'' ''Requirements document''], m))
      else (response, None, [], m))"

definition errorResponse :: "Thrown \<Rightarrow> Response" where
  "errorResponse e =
     \<lparr>status = 500,
      body = ErrorJson (case e of ErrorObj msg \<Rightarrow> msg | OtherThrown \<Rightarrow> ''Unknown error'')
                       (Some ''Check server console for more information'')\<rparr>"

definition apiKeyResponse :: Response where
  "apiKeyResponse =
     \<lparr>status = 500,
      body = ErrorJson ''API key not configured. Please add OPENROUTER_API_KEY to your .env.local file.'' None\<rparr>"

definition noMessagesResponse :: Response where
  "noMessagesResponse = \<lparr>status = 400, body = PlainText ''No messages provided''\<rparr>"

text \<open>
  The lookup of the project session and its creation on the first message of a
  conversation (\<open>!projectSession && messages.length === 1\<close>).  The result is the handler's
  variable \<open>projectSession\<close> and the manager.
\<close>

definition resolveProjectSession ::
  "string \<Rightarrow> UIMessage list \<Rightarrow> int \<Rightarrow> TracerMemoryManager
     \<Rightarrow> ProjectSession option \<times> TracerMemoryManager" where
  "resolveProjectSession sid msgs now m =
     (case getProjectSession m sid of
        Some ps \<Rightarrow> (Some ps, m)
      | None \<Rightarrow>
          if length msgs = 1
          then (let (created, m') = initializeProjectSession sid ''New Project'' now m
                in (getProjectSession m' sid, m'))
          else (None, m))"

text \<open>
  The handler from \<open>getMemoryManager()\<close> on, for a non-empty \<open>messages\<close>.  An exception
  leaves through the outer \<open>catch\<close> with what was written to the manager so far.
\<close>

definition processMessages ::
  "Env \<Rightarrow> UIMessage list \<Rightarrow> string option \<Rightarrow> Route \<Rightarrow> Response \<times> GenCall list \<times> Route" where
  "processMessages env msgs sidOpt st =
     (let sid = effectiveSessionId sidOpt (dateNow env 0);
          (session, m1) = getSession sid (dateNow env 1) (memoryManager st);
          userMessage = userText (last msgs);
          m2 = addMessage sid User userMessage (dateNow env 2) m1;
          (projectSession, m3) = resolveProjectSession sid msgs (dateNow env 3) m2;
          history = getConversationHistory m3 sid
      in if \<not> agent st
         then (errorResponse (ErrorObj ''Agent not initialized''), [], st\<lparr>memoryManager := m3\<rparr>)
         else case chat env userMessage sid history of
           Inl e \<Rightarrow> (errorResponse e, [], st\<lparr>memoryManager := m3\<rparr>)
         | Inr response \<Rightarrow>
             (let (response', generatedDocument, calls, m4) =
                    (case projectSession of
                       Some ps \<Rightarrow>
                         if documentGenerator st then generateDocuments env sid ps response m3
                         else (response, None, [], m3)
                     | None \<Rightarrow> (response, None, [], m3));
                  m5 = addMessage sid Assistant response' (dateNow env 6) m4;
                  responseData =
                    \<lparr>rd_id = ''msg-'' @ showInt (dateNow env 7), rd_role = Assistant,
                     rd_content = response',
                     rd_parts = [\<lparr>p_type = ''text'', p_text = Some response'\<rparr>],
                     document = generatedDocument,
                     rd_projectSession =
                       (if generatedDocument \<noteq> None then getProjectSession m5 sid else None)\<rparr>
              in (\<lparr>status = 200, body = MessageJson responseData\<rparr>, calls, st\<lparr>memoryManager := m5\<rparr>)))"

text \<open>
  \<open>POST\<close>.  The request is the result of \<open>req.json()\<close>: the parsed body, or what it threw.
\<close>

definition POST :: "Env \<Rightarrow> Thrown + RequestBody \<Rightarrow> Route \<Rightarrow> Response \<times> GenCall list \<times> Route" where
  "POST env req st =
     (if \<not> apiKey env then (apiKeyResponse, [], st)
      else case initializeAgents env st of
        (Some e, st1) \<Rightarrow> (errorResponse e, [], st1)
      | (None, st1) \<Rightarrow>
          (case req of
             Inl e \<Rightarrow> (errorResponse e, [], st1)
           | Inr reqBody \<Rightarrow>
               (case messages reqBody of
                  Some (msg # msgs) \<Rightarrow> processMessages env (msg # msgs) (rb_sessionId reqBody) st1
                | _ \<Rightarrow> (noMessagesResponse, [], st1))))"

text \<open>A sequence of requests, each with its environment, served one after the other.\<close>

fun serve :: "(Env \<times> (Thrown + RequestBody)) list \<Rightarrow> Route \<Rightarrow> Route" where
  "serve [] st = st"
| "serve ((env, req) # rest) st = serve rest (snd (snd (POST env req st)))"

text \<open>The fixed order of the phases: requirements, design, tasks, complete.\<close>

fun phaseIndex :: "ProjectPhase \<Rightarrow> nat" where
  "phaseIndex Requirements = 0"
| "phaseIndex Design = 1"
| "phaseIndex Tasks = 2"
| "phaseIndex Complete = 3"

text \<open>
  No project session of \<open>m\<close> is lost or behind in \<open>m'\<close>: the relation every request is
  shown to keep.
\<close>

definition phaseNotBehind :: "TracerMemoryManager \<Rightarrow> TracerMemoryManager \<Rightarrow> bool" where
  "phaseNotBehind m m' \<longleftrightarrow>
     (\<forall>sid ps. getProjectSession m sid = Some ps \<longrightarrow>
        (\<exists>ps'. getProjectSession m' sid = Some ps'
              \<and> phaseIndex (currentPhase ps) \<le> phaseIndex (currentPhase ps')))"

text \<open>The project session that \<open>initializeProjectSession\<close> builds.\<close>

definition freshProjectSession :: "string \<Rightarrow> string \<Rightarrow> int \<Rightarrow> ProjectSession" where
  "freshProjectSession sid pname now =
     \<lparr>ps_sessionId = sid, projectName = pname, currentPhase = Requirements,
      requirements = None, design = None, tasks = None,
      ps_conversationHistory = [], questionsAsked = [], userAnswers = [],
      ps_metadata = \<lparr>pm_createdAt = now, pm_updatedAt = now, lastPhaseChange = now\<rparr>\<rparr>"

section \<open>Concrete managers, environments and requests used as examples\<close>

text \<open>A manager whose session \<open>s1\<close> was initialised and then moved to the design phase.\<close>

definition designPhaseManager :: TracerMemoryManager where
  "designPhaseManager =
     updateProjectPhase ''s1'' Design 2
       (snd (initializeProjectSession ''s1'' ''New Project'' 1 (newTracerMemoryManager 50)))"

text \<open>
  Two sessions, times in milliseconds: \<open>old\<close> last updated at hour 0, \<open>new\<close> at hour 29.
\<close>

definition staleAndFresh :: TracerMemoryManager where
  "staleAndFresh =
     \<lparr>sessions =
        [(''old'', (freshSession ''old'' 0)),
         (''new'', (freshSession ''new'' (29 * 3600000)))],
      maxMessagesPerSession = 50\<rparr>"

text \<open>A requirements payload and a tasks payload.\<close>

definition sampleRequirements :: RequirementsData where
  "sampleRequirements =
     \<lparr>rq_projectName = ''Task app'', rq_description = ''A task app'',
      techStack = \<lparr>frontend = Some [''React'', ''Tailwind''], backend = None, database = None,
                    deployment = None, other = None\<rparr>,
      features = [''lists''], targetAudience = ''students'', constraints = [],
      theme = \<lparr>style = None, colors = None, preferences = None\<rparr>,
      usage = \<lparr>expectedUsers = None, scalability = None, performance = None\<rparr>,
      timeline = None, budget = None,
      rq_metadata = \<lparr>dm_createdAt = 2, dm_updatedAt = 2, dm_version = 1\<rparr>\<rparr>"

definition sampleTasks :: TasksData where
  "sampleTasks =
     \<lparr>tasklist = [], totalEstimate = None, phases = [],
      tk_metadata = \<lparr>dm_createdAt = 3, dm_updatedAt = 3, dm_version = 1, basedOnDesign = ''1''\<rparr>\<rparr>"

text \<open>Session \<open>s1\<close> in the requirements phase with its payload stored, and the project
  session it then holds.\<close>

definition requirementsReadyManager :: TracerMemoryManager where
  "requirementsReadyManager =
     setRequirements ''s1'' (Some sampleRequirements) 2
       (snd (initializeProjectSession ''s1'' ''New Project'' 1 (newTracerMemoryManager 50)))"

definition requirementsReadySession :: ProjectSession where
  "requirementsReadySession =
     (freshProjectSession ''s1'' ''New Project'' 1)
       \<lparr>requirements := Some sampleRequirements,
        ps_metadata := \<lparr>pm_createdAt = 1, pm_updatedAt = 2, lastPhaseChange = 1\<rparr>\<rparr>"

text \<open>Session \<open>s1\<close> in the tasks phase with its payload stored, and the project session it
  then holds.\<close>

definition tasksReadyManager :: TracerMemoryManager where
  "tasksReadyManager =
     setTasks ''s1'' (Some sampleTasks) 3
       (updateProjectPhase ''s1'' Tasks 2
          (snd (initializeProjectSession ''s1'' ''New Project'' 1 (newTracerMemoryManager 50))))"

definition tasksReadySession :: ProjectSession where
  "tasksReadySession =
     (freshProjectSession ''s1'' ''New Project'' 1)
       \<lparr>currentPhase := Tasks, tasks := Some sampleTasks,
        ps_metadata := \<lparr>pm_createdAt = 1, pm_updatedAt = 3, lastPhaseChange = 2\<rparr>\<rparr>"

text \<open>Environments: everything succeeds; the document generator throws; no API key.\<close>

definition okEnv :: Env where
  "okEnv =
     \<lparr>apiKey = True, newTracerAgent = True, newDocumentGeneratorChain = True,
      dateNow = (\<lambda>i. 10 + int i),
      chat = (\<lambda>message sid history. Inr ''Tell me more.''),
      generate = (\<lambda>call. Inr ''# Document'')\<rparr>"

definition throwingEnv :: Env where
  "throwingEnv = okEnv\<lparr>generate := (\<lambda>call. Inl (ErrorObj ''model unavailable''))\<rparr>"

definition noKeyEnv :: Env where
  "noKeyEnv = okEnv\<lparr>apiKey := False\<rparr>"

text \<open>Requests: the second message of a conversation on \<open>s1\<close>, and an empty message list.\<close>

definition userSays :: "string \<Rightarrow> UIMessage" where
  "userSays t = \<lparr>m_id = ''u'', m_role = User, parts = [\<lparr>p_type = ''text'', p_text = Some t\<rparr>]\<rparr>"

definition followUp :: RequestBody where
  "followUp =
     \<lparr>messages = Some [userSays ''I want to build a task app'', userSays ''For students''],
      rb_sessionId = Some ''s1''\<rparr>"

definition emptyRequest :: RequestBody where
  "emptyRequest = \<lparr>messages = Some [], rb_sessionId = Some ''s1''\<rparr>"

text \<open>The route module before its first request, over a given manager.\<close>

definition coldRoute :: "TracerMemoryManager \<Rightarrow> Route" where
  "coldRoute m = \<lparr>agent = False, documentGenerator = False, memoryManager = m\<rparr>"

section \<open>Properties of the memory manager\<close>

text \<open>The methods keep the keys of the map distinct.\<close>

lemma wellFormed_new: "wellFormed (newTracerMemoryManager cap)"
  by (simp add: wellFormed_def newTracerMemoryManager_def)

lemma wellFormed_set:
  "wellFormed m \<Longrightarrow> wellFormed (m\<lparr>sessions := AList.update k v (sessions m)\<rparr>)"
  by (simp add: wellFormed_def distinct_update)

lemma wellFormed_getSession: "wellFormed m \<Longrightarrow> wellFormed (snd (getSession sid now m))"
  by (auto simp: getSession_def createSession_def Let_def wellFormed_set split: option.splits)

lemma wellFormed_addMessage: "wellFormed m \<Longrightarrow> wellFormed (addMessage sid r c now m)"
  unfolding addMessage_def
  by (simp add: case_prod_beta Let_def wellFormed_set wellFormed_getSession)

lemma wellFormed_initializeProjectSession:
  "wellFormed m \<Longrightarrow> wellFormed (snd (initializeProjectSession sid pname now m))"
  unfolding initializeProjectSession_def
  by (simp add: case_prod_beta Let_def wellFormed_set wellFormed_getSession)

lemma wellFormed_updateProjectPhase:
  "wellFormed m \<Longrightarrow> wellFormed (updateProjectPhase sid ph now m)"
  unfolding updateProjectPhase_def
  by (simp add: case_prod_beta Let_def wellFormed_set wellFormed_getSession split: option.splits)

lemma wellFormed_setRequirements:
  "wellFormed m \<Longrightarrow> wellFormed (setRequirements sid rq now m)"
  unfolding setRequirements_def
  by (simp add: case_prod_beta Let_def wellFormed_set wellFormed_getSession split: option.splits)

lemma wellFormed_setDesign:
  "wellFormed m \<Longrightarrow> wellFormed (setDesign sid ds now m)"
  unfolding setDesign_def
  by (simp add: case_prod_beta Let_def wellFormed_set wellFormed_getSession split: option.splits)

lemma wellFormed_setTasks:
  "wellFormed m \<Longrightarrow> wellFormed (setTasks sid ts now m)"
  unfolding setTasks_def
  by (simp add: case_prod_beta Let_def wellFormed_set wellFormed_getSession split: option.splits)

lemma wellFormed_importSession: "wellFormed m \<Longrightarrow> wellFormed (importSession c m)"
  by (simp add: importSession_def wellFormed_set)

lemma wellFormed_clearSession: "wellFormed m \<Longrightarrow> wellFormed (clearSession sid m)"
  by (simp add: clearSession_def wellFormed_def distinct_delete)

lemma update_fresh_append: "map_of xs k = None \<Longrightarrow> AList.update k v xs = xs @ [(k, v)]"
  by (induction xs) (auto split: if_splits)

lemma fst_getSession:
  "fst (getSession sid now m) =
     (case map_of (sessions m) sid of Some c \<Rightarrow> c | None \<Rightarrow> freshSession sid now)"
  by (simp add: getSession_def createSession_def freshSession_def Let_def split: option.splits)

lemma snd_getSession:
  "snd (getSession sid now m) =
     (case map_of (sessions m) sid of
        Some c \<Rightarrow> m
      | None \<Rightarrow> m\<lparr>sessions := sessions m @ [(sid, freshSession sid now)]\<rparr>)"
  by (simp add: getSession_def createSession_def freshSession_def Let_def update_fresh_append
           split: option.splits)

lemma map_of_getSession:
  "map_of (sessions (snd (getSession sid now m))) sid' =
     (if sid' = sid then Some (fst (getSession sid now m)) else map_of (sessions m) sid')"
  by (auto simp: getSession_def createSession_def Let_def update_conv' split: option.splits)

lemma maxMessages_getSession [simp]:
  "maxMessagesPerSession (snd (getSession sid now m)) = maxMessagesPerSession m"
  by (simp add: getSession_def createSession_def Let_def split: option.splits)

lemma projectSession_fst_getSession [simp]:
  "projectSession (fst (getSession sid now m)) = getProjectSession m sid"
  by (simp add: fst_getSession getProjectSession_def freshSession_def split: option.splits)

lemma getProjectSession_getSession [simp]:
  "getProjectSession (snd (getSession sid now m)) sid' = getProjectSession m sid'"
  unfolding getProjectSession_def map_of_getSession
  by (simp add: fst_getSession freshSession_def split: option.splits)

lemma getProjectSession_addMessage [simp]:
  "getProjectSession (addMessage sid r c now m) sid' = getProjectSession m sid'"
proof -
  have "getProjectSession (addMessage sid r c now m) sid'
          = getProjectSession (snd (getSession sid now m)) sid'"
    unfolding addMessage_def getProjectSession_def
    by (simp add: case_prod_beta Let_def update_conv' map_of_getSession)
  then show ?thesis by simp
qed

text \<open>
  Claim C3.  For a session with a project session, \<open>isPhaseComplete\<close> for
  \<open>requirements\<close> is true exactly when a requirements payload is stored on the project
  session, likewise for \<open>design\<close> and \<open>tasks\<close>; for \<open>complete\<close> exactly when all three
  payloads are stored.  For a key with no project session it is false for every phase.
\<close>

theorem isPhaseComplete_iff_payload:
  "(isPhaseComplete m sid Requirements \<longleftrightarrow>
      (\<exists>ps. getProjectSession m sid = Some ps \<and> requirements ps \<noteq> None))
   \<and> (isPhaseComplete m sid Design \<longleftrightarrow>
      (\<exists>ps. getProjectSession m sid = Some ps \<and> design ps \<noteq> None))
   \<and> (isPhaseComplete m sid Tasks \<longleftrightarrow>
      (\<exists>ps. getProjectSession m sid = Some ps \<and> tasks ps \<noteq> None))
   \<and> (isPhaseComplete m sid Complete \<longleftrightarrow>
      (\<exists>ps. getProjectSession m sid = Some ps
            \<and> requirements ps \<noteq> None \<and> design ps \<noteq> None \<and> tasks ps \<noteq> None))
   \<and> (getProjectSession m sid = None \<longrightarrow> \<not> isPhaseComplete m sid ph)"
  by (auto simp: isPhaseComplete_def getProjectSession_def split: option.splits)

theorem isPhaseComplete_iff_payload_witness:
  "getProjectSession (snd (getSession ''s1'' 0 (newTracerMemoryManager 50))) ''s1'' = None
   \<and> \<not> isPhaseComplete (snd (getSession ''s1'' 0 (newTracerMemoryManager 50))) ''s1'' Requirements"
proof -
  have h: "getProjectSession (snd (getSession ''s1'' 0 (newTracerMemoryManager 50))) ''s1'' = None"
    by (simp add: snd_getSession newTracerMemoryManager_def getProjectSession_def freshSession_def)
  show ?thesis
    using h isPhaseComplete_iff_payload
          [of "snd (getSession ''s1'' 0 (newTracerMemoryManager 50))" "''s1''" Requirements]
    by blast
qed

text \<open>
  Claim C10.  For a key whose session has no project session, \<open>updateProjectPhase\<close>,
  \<open>setRequirements\<close>, \<open>setDesign\<close> and \<open>setTasks\<close> do nothing beyond what \<open>getSession\<close>
  does: a known key leaves the manager as it was, an unknown key gets a fresh empty session
  appended; no payload is stored and no phase is set (there is still no project session).
  None of the four has an error result.
\<close>

theorem setters_without_project_session:
  assumes "getProjectSession m sid = None"
  shows "updateProjectPhase sid ph now m = snd (getSession sid now m)
       \<and> setRequirements sid rq now m = snd (getSession sid now m)
       \<and> setDesign sid ds now m = snd (getSession sid now m)
       \<and> setTasks sid ts now m = snd (getSession sid now m)
       \<and> snd (getSession sid now m) =
           (case map_of (sessions m) sid of
              Some existing \<Rightarrow> m
            | None \<Rightarrow> m\<lparr>sessions := sessions m @ [(sid, freshSession sid now)]\<rparr>)
       \<and> getProjectSession (snd (getSession sid now m)) sid = None"
proof -
  have 1: "updateProjectPhase sid ph now m = snd (getSession sid now m)"
    unfolding updateProjectPhase_def using assms by (simp add: case_prod_beta)
  have 2: "setRequirements sid rq now m = snd (getSession sid now m)"
    unfolding setRequirements_def using assms by (simp add: case_prod_beta)
  have 3: "setDesign sid ds now m = snd (getSession sid now m)"
    unfolding setDesign_def using assms by (simp add: case_prod_beta)
  have 4: "setTasks sid ts now m = snd (getSession sid now m)"
    unfolding setTasks_def using assms by (simp add: case_prod_beta)
  have 5: "snd (getSession sid now m) =
           (case map_of (sessions m) sid of
              Some existing \<Rightarrow> m
            | None \<Rightarrow> m\<lparr>sessions := sessions m @ [(sid, freshSession sid now)]\<rparr>)"
    by (rule snd_getSession)
  have 6: "getProjectSession (snd (getSession sid now m)) sid = None"
    using assms by simp
  show ?thesis using 1 2 3 4 5 6 by blast
qed

theorem setters_without_project_session_witness:
  "getProjectSession (newTracerMemoryManager 50) ''s1'' = None
   \<and> updateProjectPhase ''s1'' Design 7 (newTracerMemoryManager 50)
       = \<lparr>sessions = [(''s1'', freshSession ''s1'' 7)], maxMessagesPerSession = 50\<rparr>
   \<and> setRequirements ''s1'' None 7 (newTracerMemoryManager 50)
       = \<lparr>sessions = [(''s1'', freshSession ''s1'' 7)], maxMessagesPerSession = 50\<rparr>"
proof -
  have h: "getProjectSession (newTracerMemoryManager 50) ''s1'' = None"
    by (simp add: getProjectSession_def newTracerMemoryManager_def)
  have g: "snd (getSession ''s1'' 7 (newTracerMemoryManager 50))
             = \<lparr>sessions = [(''s1'', freshSession ''s1'' 7)], maxMessagesPerSession = 50\<rparr>"
    by (simp add: snd_getSession newTracerMemoryManager_def)
  show ?thesis
    using h g setters_without_project_session [OF h, of Design 7 None]
    by simp
qed

lemma history_fst_getSession:
  "conversationHistory (fst (getSession sid now m)) = getConversationHistory m sid"
  by (simp add: fst_getSession getConversationHistory_def freshSession_def split: option.splits)

lemma addMessage_history:
  "getConversationHistory (addMessage sid r c now m) sid =
     (let pushed = getConversationHistory m sid @ [\<lparr>role = r, content = c, timestamp = now\<rparr>]
      in if int (length pushed) > maxMessagesPerSession m
         then slice (- maxMessagesPerSession m) pushed else pushed)"
proof -
  have "getConversationHistory (addMessage sid r c now m) sid =
     (let pushed = conversationHistory (fst (getSession sid now m))
                     @ [\<lparr>role = r, content = c, timestamp = now\<rparr>]
      in if int (length pushed) > maxMessagesPerSession m
         then slice (- maxMessagesPerSession m) pushed else pushed)"
    unfolding addMessage_def getConversationHistory_def
    by (simp add: case_prod_beta Let_def update_conv')
  then show ?thesis unfolding history_fst_getSession .
qed

lemma addMessage_history_other:
  "sid' \<noteq> sid \<Longrightarrow>
   getConversationHistory (addMessage sid r c now m) sid' = getConversationHistory m sid'"
  unfolding addMessage_def getConversationHistory_def
  by (simp add: case_prod_beta Let_def update_conv' map_of_getSession)

lemma maxMessages_addMessage [simp]:
  "maxMessagesPerSession (addMessage sid r c now m) = maxMessagesPerSession m"
  unfolding addMessage_def by (simp add: case_prod_beta Let_def)

lemma slice_negative:
  "0 < cap \<Longrightarrow> slice (- cap) xs = drop (length xs - nat cap) xs"
  by (auto simp: slice_def Let_def max_def nat_diff_distrib' intro: arg_cong[where f="\<lambda>k. drop k xs"])

lemma addMessage_keeps_most_recent:
  assumes "0 < maxMessagesPerSession m"
  shows "getConversationHistory (addMessage sid r c now m) sid =
           drop (length (getConversationHistory m sid) + 1 - nat (maxMessagesPerSession m))
                (getConversationHistory m sid @ [\<lparr>role = r, content = c, timestamp = now\<rparr>])"
    and "int (length (getConversationHistory (addMessage sid r c now m) sid))
           \<le> maxMessagesPerSession m"
  using assms by (auto simp: addMessage_history Let_def slice_negative)

text \<open>
  Claim C6.  The history length is to stay within the configured cap.  With the cap
  configured as 0, the trim is \<open>slice(-0)\<close>, which keeps the whole array: after one
  \<open>addMessage\<close> on the new manager the history holds one entry, above the cap of 0.
  (For a cap of at least 1 the bound and the first-in-first-out trim hold:
  \<open>addMessage_keeps_most_recent\<close>.)
\<close>

theorem addMessage_cap_zero_not_trimmed:
  "maxMessagesPerSession (addMessage ''s1'' User ''hi'' 1 (newTracerMemoryManager 0)) = 0
   \<and> length (getConversationHistory (addMessage ''s1'' User ''hi'' 1 (newTracerMemoryManager 0)) ''s1'') = 1"
proof -
  have e: "getConversationHistory (newTracerMemoryManager 0) ''s1'' = []"
    by (simp add: getConversationHistory_def newTracerMemoryManager_def)
  have c: "maxMessagesPerSession (newTracerMemoryManager 0) = 0"
    by (simp add: newTracerMemoryManager_def)
  show ?thesis
    by (simp add: addMessage_history e c slice_def Let_def)
qed

lemma fst_initializeProjectSession:
  "fst (initializeProjectSession sid pname now m) = freshProjectSession sid pname now"
  by (simp add: initializeProjectSession_def freshProjectSession_def case_prod_beta Let_def)

lemma getProjectSession_initializeProjectSession:
  "getProjectSession (snd (initializeProjectSession sid pname now m)) sid' =
     (if sid' = sid then Some (freshProjectSession sid pname now) else getProjectSession m sid')"
  unfolding initializeProjectSession_def getProjectSession_def freshProjectSession_def
  by (simp add: case_prod_beta Let_def update_conv' map_of_getSession)

text \<open>
  Claim C2, as the code has it.  \<open>initializeProjectSession\<close> has no guard of its own: on any
  key, with or without a project session, it installs a fresh project session (phase
  \<open>requirements\<close>, no payloads, no questions, no answers, the three timestamps \<open>now\<close>) in
  place of whatever was there, and returns it; the conversation log of the session is kept.
\<close>

theorem initializeProjectSession_replaces:
  "fst (initializeProjectSession sid pname now m) = freshProjectSession sid pname now
   \<and> getProjectSession (snd (initializeProjectSession sid pname now m)) sid
        = Some (freshProjectSession sid pname now)
   \<and> getConversationHistory (snd (initializeProjectSession sid pname now m)) sid
        = getConversationHistory m sid"
proof -
  have "getConversationHistory (snd (initializeProjectSession sid pname now m)) sid
        = conversationHistory (fst (getSession sid now m))"
    unfolding initializeProjectSession_def getConversationHistory_def
    by (simp add: case_prod_beta Let_def update_conv')
  then have h: "getConversationHistory (snd (initializeProjectSession sid pname now m)) sid
        = getConversationHistory m sid"
    unfolding history_fst_getSession .
  show ?thesis
    using h by (simp add: fst_initializeProjectSession getProjectSession_initializeProjectSession)
qed

text \<open>
  Claim C2 as stated fails: session \<open>s1\<close> of \<open>designPhaseManager\<close> is in the design phase;
  a second \<open>initializeProjectSession\<close> on \<open>s1\<close> puts it back to \<open>requirements\<close>.
\<close>

theorem initializeProjectSession_twice_resets:
  "map_option currentPhase (getProjectSession designPhaseManager ''s1'') = Some Design
   \<and> map_option currentPhase
         (getProjectSession (snd (initializeProjectSession ''s1'' ''New Project'' 3 designPhaseManager)) ''s1'')
       = Some Requirements
   \<and> getProjectSession (snd (initializeProjectSession ''s1'' ''New Project'' 3 designPhaseManager)) ''s1''
       \<noteq> getProjectSession designPhaseManager ''s1''"
proof -
  have a: "map_option currentPhase (getProjectSession designPhaseManager ''s1'') = Some Design"
    by (simp add: designPhaseManager_def updateProjectPhase_def initializeProjectSession_def
          getSession_def createSession_def newTracerMemoryManager_def getProjectSession_def Let_def)
  have b: "map_option currentPhase
         (getProjectSession (snd (initializeProjectSession ''s1'' ''New Project'' 3 designPhaseManager)) ''s1'')
       = Some Requirements"
    by (simp add: getProjectSession_initializeProjectSession freshProjectSession_def)
  from a b show ?thesis by (metis ProjectPhase.distinct(1) option.inject)
qed

lemma pruneLoop_filter:
  "pruneLoop c rest ss n =
     (filter (\<lambda>e. fst e \<notin> fst ` {x \<in> set rest. updatedAt (metadata (snd x)) < c}) ss,
      n + length (filter (\<lambda>x. updatedAt (metadata (snd x)) < c) rest))"
proof (induction rest arbitrary: ss n)
  case Nil
  then show ?case by simp
next
  case (Cons e rest)
  obtain sid ctx where e: "e = (sid, ctx)" by (cases e)
  show ?case
  proof (cases "updatedAt (metadata ctx) < c")
    case True
    have d: "AList.delete sid ss = filter (\<lambda>e. fst e \<noteq> sid) ss"
      by (induction ss) auto
    have i: "fst ` {x \<in> set ((sid, ctx) # rest). updatedAt (metadata (snd x)) < c}
             = insert sid (fst ` {x \<in> set rest. updatedAt (metadata (snd x)) < c})"
      using True by force
    have "filter (\<lambda>e. fst e \<notin> fst ` {x \<in> set rest. updatedAt (metadata (snd x)) < c}) (AList.delete sid ss)
          = filter (\<lambda>e. fst e \<notin> fst ` {x \<in> set ((sid, ctx) # rest). updatedAt (metadata (snd x)) < c}) ss"
      unfolding d i by (auto intro: filter_cong)
    then show ?thesis using True e Cons.IH by simp
  next
    case False
    have "{x \<in> set ((sid, ctx) # rest). updatedAt (metadata (snd x)) < c}
          = {x \<in> set rest. updatedAt (metadata (snd x)) < c}"
      using False by auto
    then show ?thesis using False e Cons.IH by simp
  qed
qed

lemma wellFormed_pruneOldSessions:
  "wellFormed m \<Longrightarrow> wellFormed (snd (pruneOldSessions hoursOld now m))"
  unfolding pruneOldSessions_def wellFormed_def
  by (simp add: case_prod_beta Let_def pruneLoop_filter distinct_map_filter)

lemma distinct_keys_filter:
  assumes "distinct (map fst xs)"
  shows "filter (\<lambda>e. fst e \<notin> fst ` {x \<in> set xs. P (snd x)}) xs = filter (\<lambda>e. \<not> P (snd e)) xs"
proof (rule filter_cong[OF refl])
  fix e assume e: "e \<in> set xs"
  have "fst e \<in> fst ` {x \<in> set xs. P (snd x)} \<longleftrightarrow> P (snd e)"
  proof
    assume "fst e \<in> fst ` {x \<in> set xs. P (snd x)}"
    then obtain x where x: "x \<in> set xs" "P (snd x)" "fst x = fst e" by auto
    from assms e x(1) x(3) have "x = e"
      by (metis eq_key_imp_eq_value prod.collapse)
    with x(2) show "P (snd e)" by simp
  next
    assume "P (snd e)"
    with e show "fst e \<in> fst ` {x \<in> set xs. P (snd x)}" by auto
  qed
  then show "(fst e \<notin> fst ` {x \<in> set xs. P (snd x)}) = (\<not> P (snd e))" by simp
qed

lemma map_of_filter_distinct:
  assumes "distinct (map fst xs)"
  shows "map_of (filter (\<lambda>e. Q (snd e)) xs) k =
           (case map_of xs k of None \<Rightarrow> None | Some v \<Rightarrow> if Q v then Some v else None)"
  using assms
proof (induction xs)
  case Nil
  then show ?case by simp
next
  case (Cons e xs)
  then have IH: "map_of (filter (\<lambda>e. Q (snd e)) xs) k =
           (case map_of xs k of None \<Rightarrow> None | Some v \<Rightarrow> if Q v then Some v else None)"
    by simp
  from Cons.prems have notin: "fst e \<notin> fst ` set xs" by simp
  show ?case
  proof (cases "k = fst e")
    case True
    with notin have "map_of xs k = None" by (simp add: map_of_eq_None_iff)
    with True IH show ?thesis by (cases e) auto
  next
    case False
    with IH show ?thesis by (cases e) auto
  qed
qed

text \<open>
  Claim C8.  For every \<open>hoursOld\<close>, \<open>pruneOldSessions\<close> removes exactly the sessions whose
  \<open>metadata.updatedAt\<close> is below \<open>now - hoursOld * 60 * 60 * 1000\<close> and returns how many it
  removed; every other session stays, with its record, and \<open>getActiveSessions\<close> lists the
  remaining keys in their order.  The keys of the map are distinct, as in any \<open>Map\<close>.
\<close>

theorem pruneOldSessions_exact:
  assumes "distinct (map fst (sessions m))"
  shows "sessions (snd (pruneOldSessions hoursOld now m))
           = filter (\<lambda>e. \<not> updatedAt (metadata (snd e)) < now - hoursOld * 60 * 60 * 1000) (sessions m)
       \<and> fst (pruneOldSessions hoursOld now m)
           = length (filter (\<lambda>e. updatedAt (metadata (snd e)) < now - hoursOld * 60 * 60 * 1000) (sessions m))
       \<and> getActiveSessions (snd (pruneOldSessions hoursOld now m))
           = map fst (filter (\<lambda>e. \<not> updatedAt (metadata (snd e)) < now - hoursOld * 60 * 60 * 1000) (sessions m))
       \<and> map_of (sessions (snd (pruneOldSessions hoursOld now m))) sid
           = (case map_of (sessions m) sid of
                None \<Rightarrow> None
              | Some context \<Rightarrow>
                  if \<not> updatedAt (metadata context) < now - hoursOld * 60 * 60 * 1000
                  then Some context else None)"
proof -
  define c where "c = now - hoursOld * 60 * 60 * 1000"
  have p: "pruneOldSessions hoursOld now m =
             (snd (pruneLoop c (sessions m) (sessions m) 0),
              m\<lparr>sessions := fst (pruneLoop c (sessions m) (sessions m) 0)\<rparr>)"
    unfolding pruneOldSessions_def c_def by (simp add: Let_def case_prod_beta)
  have s: "sessions (snd (pruneOldSessions hoursOld now m))
           = filter (\<lambda>e. \<not> updatedAt (metadata (snd e)) < c) (sessions m)"
    unfolding p pruneLoop_filter
    using distinct_keys_filter[OF assms, of "\<lambda>v. updatedAt (metadata v) < c"] by simp
  have n: "fst (pruneOldSessions hoursOld now m)
           = length (filter (\<lambda>e. updatedAt (metadata (snd e)) < c) (sessions m))"
    unfolding p pruneLoop_filter by simp
  have a: "getActiveSessions (snd (pruneOldSessions hoursOld now m))
           = map fst (filter (\<lambda>e. \<not> updatedAt (metadata (snd e)) < c) (sessions m))"
    unfolding getActiveSessions_def s ..
  have l: "map_of (sessions (snd (pruneOldSessions hoursOld now m))) sid
           = (case map_of (sessions m) sid of
                None \<Rightarrow> None
              | Some context \<Rightarrow> if \<not> updatedAt (metadata context) < c then Some context else None)"
    unfolding s by (rule map_of_filter_distinct[OF assms])
  show ?thesis using s n a l unfolding c_def by blast
qed


theorem pruneOldSessions_exact_witness:
  "distinct (map fst (sessions staleAndFresh))
   \<and> fst (pruneOldSessions 24 (30 * 3600000) staleAndFresh) = 1
   \<and> getActiveSessions (snd (pruneOldSessions 24 (30 * 3600000) staleAndFresh)) = [''new'']"
proof -
  have d: "distinct (map fst (sessions staleAndFresh))"
    by (simp add: staleAndFresh_def)
  show ?thesis
    using d pruneOldSessions_exact [OF d, of 24 "30 * 3600000" "''old''"]
    by (simp add: staleAndFresh_def freshSession_def)
qed

section \<open>Properties of the route handler\<close>

lemma phaseNotBehind_refl: "phaseNotBehind m m"
  by (simp add: phaseNotBehind_def)

lemma phaseNotBehind_trans:
  "phaseNotBehind m1 m2 \<Longrightarrow> phaseNotBehind m2 m3 \<Longrightarrow> phaseNotBehind m1 m3"
  unfolding phaseNotBehind_def by (meson le_trans)

lemma phaseNotBehind_same:
  "(\<And>sid. getProjectSession m' sid = getProjectSession m sid) \<Longrightarrow> phaseNotBehind m m'"
  by (simp add: phaseNotBehind_def)

lemma getProjectSession_updateProjectPhase:
  "getProjectSession (updateProjectPhase sid ph now m) sid' =
     (if sid' = sid
      then map_option (\<lambda>ps. ps\<lparr>currentPhase := ph,
                 ps_metadata := (ps_metadata ps)\<lparr>pm_updatedAt := now, lastPhaseChange := now\<rparr>\<rparr>)
             (getProjectSession m sid)
      else getProjectSession m sid')"
proof (cases "getProjectSession m sid")
  case None
  then show ?thesis
    unfolding updateProjectPhase_def by (simp add: case_prod_beta)
next
  case (Some ps)
  then show ?thesis
    unfolding updateProjectPhase_def
    by (simp add: case_prod_beta Let_def getProjectSession_def [of "_\<lparr>sessions := _\<rparr>"] update_conv'
          map_of_getSession)
       (simp add: getProjectSession_def)
qed

lemma getProjectSession_setRequirements:
  "getProjectSession (setRequirements sid rq now m) sid' =
     (if sid' = sid
      then map_option (\<lambda>ps. ps\<lparr>requirements := rq,
                 ps_metadata := (ps_metadata ps)\<lparr>pm_updatedAt := now\<rparr>\<rparr>)
             (getProjectSession m sid)
      else getProjectSession m sid')"
proof (cases "getProjectSession m sid")
  case None
  then show ?thesis
    unfolding setRequirements_def by (simp add: case_prod_beta)
next
  case (Some ps)
  then show ?thesis
    unfolding setRequirements_def
    by (simp add: case_prod_beta Let_def getProjectSession_def [of "_\<lparr>sessions := _\<rparr>"] update_conv'
          map_of_getSession)
       (simp add: getProjectSession_def)
qed

lemma getProjectSession_setDesign:
  "getProjectSession (setDesign sid ds now m) sid' =
     (if sid' = sid
      then map_option (\<lambda>ps. ps\<lparr>design := ds,
                 ps_metadata := (ps_metadata ps)\<lparr>pm_updatedAt := now\<rparr>\<rparr>)
             (getProjectSession m sid)
      else getProjectSession m sid')"
proof (cases "getProjectSession m sid")
  case None
  then show ?thesis
    unfolding setDesign_def by (simp add: case_prod_beta)
next
  case (Some ps)
  then show ?thesis
    unfolding setDesign_def
    by (simp add: case_prod_beta Let_def getProjectSession_def [of "_\<lparr>sessions := _\<rparr>"] update_conv'
          map_of_getSession)
       (simp add: getProjectSession_def)
qed

lemma getProjectSession_setTasks:
  "getProjectSession (setTasks sid ts now m) sid' =
     (if sid' = sid
      then map_option (\<lambda>ps. ps\<lparr>tasks := ts,
                 ps_metadata := (ps_metadata ps)\<lparr>pm_updatedAt := now\<rparr>\<rparr>)
             (getProjectSession m sid)
      else getProjectSession m sid')"
proof (cases "getProjectSession m sid")
  case None
  then show ?thesis
    unfolding setTasks_def by (simp add: case_prod_beta)
next
  case (Some ps)
  then show ?thesis
    unfolding setTasks_def
    by (simp add: case_prod_beta Let_def getProjectSession_def [of "_\<lparr>sessions := _\<rparr>"] update_conv'
          map_of_getSession)
       (simp add: getProjectSession_def)
qed

lemma isPhaseComplete_conv:
  "isPhaseComplete m sid ph =
     (case getProjectSession m sid of
        None \<Rightarrow> False
      | Some ps \<Rightarrow>
          (case ph of
             Requirements \<Rightarrow> requirements ps \<noteq> None
           | Design \<Rightarrow> design ps \<noteq> None
           | Tasks \<Rightarrow> tasks ps \<noteq> None
           | Complete \<Rightarrow> requirements ps \<noteq> None \<and> design ps \<noteq> None \<and> tasks ps \<noteq> None))"
  by (simp add: isPhaseComplete_def getProjectSession_def split: option.splits)

text \<open>
  A payload is present once its setter has run on a session that has a project session,
  and absent on a project session just initialised.
\<close>

lemma isPhaseComplete_after_setter:
  assumes "getProjectSession m sid = Some ps"
  shows "isPhaseComplete (setRequirements sid (Some rq) now m) sid Requirements"
    and "isPhaseComplete (setDesign sid (Some ds) now m) sid Design"
    and "isPhaseComplete (setTasks sid (Some ts) now m) sid Tasks"
  using assms
  by (simp_all add: isPhaseComplete_conv getProjectSession_setRequirements
        getProjectSession_setDesign getProjectSession_setTasks)

lemma isPhaseComplete_after_initialize:
  "\<not> isPhaseComplete (snd (initializeProjectSession sid pname now m)) sid ph"
  by (cases ph)
     (simp_all add: isPhaseComplete_conv getProjectSession_initializeProjectSession
        freshProjectSession_def)

lemma generateDocuments_other:
  "sid' \<noteq> sid \<Longrightarrow>
   getProjectSession (snd (snd (snd (generateDocuments env sid ps response m)))) sid'
     = getProjectSession m sid'"
  unfolding generateDocuments_def
  by (simp add: Let_def getProjectSession_updateProjectPhase getProjectSession_setRequirements
        getProjectSession_setDesign getProjectSession_setTasks split: sum.splits)

lemma generateDocuments_self:
  assumes "getProjectSession m sid = Some ps"
  shows "\<exists>ps'. getProjectSession (snd (snd (snd (generateDocuments env sid ps response m)))) sid = Some ps'
           \<and> (currentPhase ps' = currentPhase ps
                \<or> phaseIndex (currentPhase ps') = phaseIndex (currentPhase ps) + 1)"
  unfolding generateDocuments_def using assms
  by (simp add: Let_def getProjectSession_updateProjectPhase getProjectSession_setRequirements
        getProjectSession_setDesign getProjectSession_setTasks split: sum.splits)

lemma getProjectSession_resolve:
  "getProjectSession (snd (resolveProjectSession sid msgs now m)) sid' =
     (if sid' = sid \<and> getProjectSession m sid = None \<and> length msgs = 1
      then Some (freshProjectSession sid ''New Project'' now)
      else getProjectSession m sid')"
  unfolding resolveProjectSession_def
  by (simp add: case_prod_beta Let_def getProjectSession_initializeProjectSession
           split: option.splits)

lemma fst_resolve:
  "fst (resolveProjectSession sid msgs now m)
     = getProjectSession (snd (resolveProjectSession sid msgs now m)) sid"
  unfolding resolveProjectSession_def
  by (simp add: case_prod_beta Let_def split: option.splits)

lemma getSession_existing:
  "getProjectSession m sid = Some ps \<Longrightarrow> snd (getSession sid now m) = m"
  by (auto simp: snd_getSession getProjectSession_def split: option.splits)

lemma resolve_existing:
  "getProjectSession m sid = Some ps \<Longrightarrow> resolveProjectSession sid msgs now m = (Some ps, m)"
  by (simp add: resolveProjectSession_def)

lemma processMessages_existing:
  assumes ag: "agent st"
      and sid: "sid = effectiveSessionId sidOpt (dateNow env 0)"
      and ps: "getProjectSession (memoryManager st) sid = Some ps"
      and m2: "m2 = addMessage sid User (userText (last msgs)) (dateNow env 2) (memoryManager st)"
      and ch: "chat env (userText (last msgs)) sid (getConversationHistory m2 sid) = Inr reply"
      and gd: "(if documentGenerator st then generateDocuments env sid ps reply m2
               else (reply, None, [], m2)) = (response', generatedDocument, calls, m4)"
  shows "processMessages env msgs sidOpt st =
           (\<lparr>status = 200,
             body = MessageJson
               \<lparr>rd_id = ''msg-'' @ showInt (dateNow env 7), rd_role = Assistant,
                rd_content = response',
                rd_parts = [\<lparr>p_type = ''text'', p_text = Some response'\<rparr>],
                document = generatedDocument,
                rd_projectSession =
                  (if generatedDocument \<noteq> None
                   then getProjectSession (addMessage sid Assistant response' (dateNow env 6) m4) sid
                   else None)\<rparr>\<rparr>,
            calls,
            st\<lparr>memoryManager := addMessage sid Assistant response' (dateNow env 6) m4\<rparr>)"
proof -
  obtain c where gs: "getSession sid (dateNow env 1) (memoryManager st) = (c, memoryManager st)"
    using ps by (auto simp: getSession_def getProjectSession_def split: option.splits)
  have p2: "getProjectSession m2 sid = Some ps"
    unfolding m2 using ps by simp
  have r: "resolveProjectSession sid msgs (dateNow env 3) m2 = (Some ps, m2)"
    using p2 by (rule resolve_existing)
  show ?thesis
    unfolding processMessages_def sid[symmetric]
    by (simp add: Let_def gs m2[symmetric] r ag ch gd del: One_nat_def)
qed

lemma initializeAgents_ok:
  "initializeAgents env st = (None, st1) \<Longrightarrow> agent st1 \<and> memoryManager st1 = memoryManager st"
  by (auto simp: initializeAgents_def split: if_splits)

lemma POST_processes:
  assumes "apiKey env" and "initializeAgents env st = (None, st1)"
      and "messages reqBody = Some msgs" and "msgs \<noteq> []"
  shows "POST env (Inr reqBody) st = processMessages env msgs (rb_sessionId reqBody) st1"
  using assms by (cases msgs) (simp_all add: POST_def)

lemma generateDocuments_success:
  assumes ps: "getProjectSession m sid = Some ps"
      and tab: "(currentPhase ps, call, note, nxt) \<in>
                 {(Requirements, GenerateRequirements ps, requirementsNote, Design),
                  (Design, GenerateDesign (techStackStr ps) ps, designNote, Tasks),
                  (Tasks, GenerateTasks ''Design document'' ''Requirements document'', tasksNote, Complete)}"
      and pc: "isPhaseComplete m sid (currentPhase ps)"
      and gen: "generate env call = Inr doc"
  shows "\<exists>m'. generateDocuments env sid ps response m
                 = (response @ note, Some (currentPhase ps, doc), [call], m')
              \<and> getProjectSession m' sid
                 = Some (ps\<lparr>currentPhase := nxt,
                           ps_metadata := (ps_metadata ps)\<lparr>pm_updatedAt := dateNow env 5,
                                             lastPhaseChange := dateNow env 5\<rparr>\<rparr>)"
proof -
  consider (r) "currentPhase ps = Requirements" "call = GenerateRequirements ps"
               "note = requirementsNote" "nxt = Design"
    | (d) "currentPhase ps = Design" "call = GenerateDesign (techStackStr ps) ps"
               "note = designNote" "nxt = Tasks"
    | (t) "currentPhase ps = Tasks"
               "call = GenerateTasks ''Design document'' ''Requirements document''"
               "note = tasksNote" "nxt = Complete"
    using tab by auto
  then show ?thesis
  proof cases
    case r
    with pc gen ps show ?thesis
      unfolding generateDocuments_def
      by (simp add: Let_def getProjectSession_updateProjectPhase getProjectSession_setRequirements)
  next
    case d
    with pc gen ps show ?thesis
      unfolding generateDocuments_def
      by (simp add: Let_def getProjectSession_updateProjectPhase getProjectSession_setDesign)
  next
    case t
    with pc gen ps show ?thesis
      unfolding generateDocuments_def
      by (simp add: Let_def getProjectSession_updateProjectPhase getProjectSession_setTasks)
  qed
qed

lemma generateDocuments_failure:
  assumes tab: "(currentPhase ps, call) \<in>
                 {(Requirements, GenerateRequirements ps),
                  (Design, GenerateDesign (techStackStr ps) ps),
                  (Tasks, GenerateTasks ''Design document'' ''Requirements document'')}"
      and pc: "isPhaseComplete m sid (currentPhase ps)"
      and gen: "generate env call = Inl e"
  shows "generateDocuments env sid ps response m = (response, None, [call], m)"
  using assms unfolding generateDocuments_def by auto

lemma generateDocuments_tasks_call:
  assumes "currentPhase ps = Tasks" and "isPhaseComplete m sid Tasks"
  shows "fst (snd (snd (generateDocuments env sid ps response m)))
           = [GenerateTasks ''Design document'' ''Requirements document'']"
  using assms unfolding generateDocuments_def by (simp add: Let_def split: sum.splits)

lemma isPhaseComplete_addMessage [simp]:
  "isPhaseComplete (addMessage sid' r c now m) sid ph = isPhaseComplete m sid ph"
  by (simp add: isPhaseComplete_conv)

lemma finish_step:
  assumes "getProjectSession m3 sid' = Some ps"
  shows "\<exists>ps'. getProjectSession
                 (snd (snd (snd (case getProjectSession m3 sid of
                     Some p \<Rightarrow>
                       if dg then generateDocuments env sid p response m3
                       else (response, None, [], m3)
                   | None \<Rightarrow> (response, None, [], m3))))) sid' = Some ps'
              \<and> (currentPhase ps' = currentPhase ps
                   \<or> phaseIndex (currentPhase ps') = phaseIndex (currentPhase ps) + 1)"
proof (cases "sid' = sid")
  case True
  with assms have s: "getProjectSession m3 sid = Some ps" by simp
  show ?thesis
    using generateDocuments_self[OF s, of env response] s True assms by simp
next
  case False
  then show ?thesis
    using assms by (simp add: generateDocuments_other split: option.splits)
qed

lemma processMessages_step:
  assumes "getProjectSession (memoryManager st) sid' = Some ps"
  shows "\<exists>ps'. getProjectSession
                 (memoryManager (snd (snd (processMessages env msgs sidOpt st)))) sid' = Some ps'
              \<and> (currentPhase ps' = currentPhase ps
                   \<or> phaseIndex (currentPhase ps') = phaseIndex (currentPhase ps) + 1)"
proof -
  define sid where "sid = effectiveSessionId sidOpt (dateNow env 0)"
  define m2 where "m2 = addMessage sid User (userText (last msgs)) (dateNow env 2)
                          (snd (getSession sid (dateNow env 1) (memoryManager st)))"
  define m3 where "m3 = snd (resolveProjectSession sid msgs (dateNow env 3) m2)"
  have g2: "getProjectSession m2 sid' = Some ps"
    unfolding m2_def using assms by simp
  have g3: "getProjectSession m3 sid' = Some ps"
    unfolding m3_def using g2 by (auto simp: getProjectSession_resolve)
  have fin: "\<exists>ps'. getProjectSession (addMessage sid Assistant r t
                 (snd (snd (snd (case getProjectSession m3 sid of
                     Some p \<Rightarrow>
                       if documentGenerator st then generateDocuments env sid p response m3
                       else (response, None, [], m3)
                   | None \<Rightarrow> (response, None, [], m3)))))) sid' = Some ps'
              \<and> (currentPhase ps' = currentPhase ps
                   \<or> phaseIndex (currentPhase ps') = phaseIndex (currentPhase ps) + 1)"
    for r t response
    using finish_step[OF g3, where sid = sid and dg = "documentGenerator st" and env = env
                        and response = response]
    by simp
  show ?thesis
    using g3 fin
    unfolding processMessages_def m3_def m2_def sid_def
    by (simp add: Let_def case_prod_beta fst_resolve del: One_nat_def split: sum.splits)
qed

lemma POST_step:
  assumes "getProjectSession (memoryManager st) sid = Some ps"
  shows "\<exists>ps'. getProjectSession (memoryManager (snd (snd (POST env req st)))) sid = Some ps'
              \<and> (currentPhase ps' = currentPhase ps
                   \<or> phaseIndex (currentPhase ps') = phaseIndex (currentPhase ps) + 1)"
proof -
  obtain thrown st1 where ia: "initializeAgents env st = (thrown, st1)"
    by (cases "initializeAgents env st")
  have m: "memoryManager st1 = memoryManager st"
    using ia by (auto simp: initializeAgents_def split: if_splits)
  have p: "\<exists>ps'. getProjectSession
                 (memoryManager (snd (snd (processMessages env msgs sidOpt st1)))) sid = Some ps'
              \<and> (currentPhase ps' = currentPhase ps
                   \<or> phaseIndex (currentPhase ps') = phaseIndex (currentPhase ps) + 1)"
    for msgs sidOpt
    using processMessages_step[of st1 sid ps env msgs sidOpt] assms by (simp add: m)
  show ?thesis
    unfolding POST_def ia
    using assms p
    by (simp add: m split: option.splits sum.splits list.splits)
qed

lemma POST_phaseNotBehind:
  "phaseNotBehind (memoryManager st) (memoryManager (snd (snd (POST env req st))))"
  unfolding phaseNotBehind_def
proof (intro allI impI)
  fix sid ps
  assume "getProjectSession (memoryManager st) sid = Some ps"
  from POST_step[OF this, of env req]
  show "\<exists>ps'. getProjectSession (memoryManager (snd (snd (POST env req st)))) sid = Some ps'
             \<and> phaseIndex (currentPhase ps) \<le> phaseIndex (currentPhase ps')"
    by auto
qed

text \<open>A request keeps the keys of the map distinct.\<close>

lemma wellFormed_generateDocuments:
  "wellFormed m \<Longrightarrow> wellFormed (snd (snd (snd (generateDocuments env sid ps response m))))"
  unfolding generateDocuments_def
  by (simp add: Let_def wellFormed_updateProjectPhase wellFormed_setRequirements
        wellFormed_setDesign wellFormed_setTasks split: sum.splits)

lemma wellFormed_resolve:
  "wellFormed m \<Longrightarrow> wellFormed (snd (resolveProjectSession sid msgs now m))"
  unfolding resolveProjectSession_def
  by (simp add: case_prod_beta Let_def wellFormed_initializeProjectSession split: option.splits)

lemma wellFormed_processMessages:
  assumes "wellFormed (memoryManager st)"
  shows "wellFormed (memoryManager (snd (snd (processMessages env msgs sidOpt st))))"
  unfolding processMessages_def
  using assms
  by (simp add: Let_def case_prod_beta wellFormed_addMessage wellFormed_getSession
        wellFormed_resolve wellFormed_generateDocuments del: One_nat_def
        split: sum.splits option.splits)

lemma wellFormed_POST:
  assumes "wellFormed (memoryManager st)"
  shows "wellFormed (memoryManager (snd (snd (POST env req st))))"
proof -
  obtain thrown st1 where ia: "initializeAgents env st = (thrown, st1)"
    by (cases "initializeAgents env st")
  have m: "memoryManager st1 = memoryManager st"
    using ia by (auto simp: initializeAgents_def split: if_splits)
  have p: "wellFormed (memoryManager (snd (snd (processMessages env msgs sidOpt st1))))"
    for msgs sidOpt
    using wellFormed_processMessages[of st1 env msgs sidOpt] assms by (simp add: m)
  show ?thesis
    unfolding POST_def ia
    using assms p
    by (simp add: m split: option.splits sum.splits list.splits)
qed

lemma wellFormed_serve:
  "wellFormed (memoryManager st) \<Longrightarrow> wellFormed (memoryManager (serve reqs st))"
proof (induction reqs arbitrary: st)
  case Nil
  then show ?case by simp
next
  case (Cons r reqs)
  obtain env req where r: "r = (env, req)" by (cases r)
  show ?case
    unfolding r serve.simps
    by (rule Cons.IH) (rule wellFormed_POST[OF Cons.prems])
qed

lemma serve_phaseNotBehind:
  "phaseNotBehind (memoryManager st) (memoryManager (serve reqs st))"
proof (induction reqs arbitrary: st)
  case Nil
  then show ?case by (simp add: phaseNotBehind_refl)
next
  case (Cons r reqs)
  obtain env req where r: "r = (env, req)" by (cases r)
  show ?case
    unfolding r serve.simps
    by (rule phaseNotBehind_trans[OF POST_phaseNotBehind Cons.IH])
qed

lemma serve_append: "serve (xs @ ys) st = serve ys (serve xs st)"
  by (induction xs arbitrary: st) auto

lemma requirementsReady_session:
  "getProjectSession requirementsReadyManager ''s1'' = Some requirementsReadySession"
  by (simp add: requirementsReadyManager_def requirementsReadySession_def
        getProjectSession_setRequirements getProjectSession_initializeProjectSession
        freshProjectSession_def)

lemma tasksReady_session:
  "getProjectSession tasksReadyManager ''s1'' = Some tasksReadySession"
  by (simp add: tasksReadyManager_def tasksReadySession_def
        getProjectSession_setTasks getProjectSession_updateProjectPhase
        getProjectSession_initializeProjectSession freshProjectSession_def)

lemma initializeAgents_cold:
  "initializeAgents okEnv (coldRoute m)
     = (None, \<lparr>agent = True, documentGenerator = True, memoryManager = m\<rparr>)"
  "initializeAgents throwingEnv (coldRoute m)
     = (None, \<lparr>agent = True, documentGenerator = True, memoryManager = m\<rparr>)"
  by (simp_all add: initializeAgents_def okEnv_def throwingEnv_def coldRoute_def)

lemma followUp_facts:
  "messages followUp = Some [userSays ''I want to build a task app'', userSays ''For students'']"
  "effectiveSessionId (rb_sessionId followUp) t = ''s1''"
  by (simp_all add: followUp_def effectiveSessionId_def)

lemma requirementsReady_complete:
  "isPhaseComplete requirementsReadyManager ''s1'' Requirements"
  by (simp add: isPhaseComplete_conv requirementsReady_session requirementsReadySession_def)

lemma tasksReady_complete:
  "isPhaseComplete tasksReadyManager ''s1'' Tasks"
  by (simp add: isPhaseComplete_conv tasksReady_session tasksReadySession_def)

lemma requirementsReady_phase: "currentPhase requirementsReadySession = Requirements"
  by (simp add: requirementsReadySession_def freshProjectSession_def)

lemma tasksReady_phase: "currentPhase tasksReadySession = Tasks"
  by (simp add: tasksReadySession_def)

text \<open>
  Claim C1.  Over every sequence of requests served by \<open>POST\<close>, from any state of the
  route: a project session that exists after some requests still exists after any further
  requests, and its \<open>currentPhase\<close> is then not earlier in the order requirements, design,
  tasks, complete; it is one of these four phases.  One request leaves the phase where it
  was or moves it to the phase that follows it in the order.
\<close>

theorem currentPhase_never_regresses:
  assumes "getProjectSession (memoryManager (serve before st)) sid = Some ps"
  shows "(\<exists>ps'. getProjectSession (memoryManager (serve (before @ after) st)) sid = Some ps'
               \<and> phaseIndex (currentPhase ps) \<le> phaseIndex (currentPhase ps')
               \<and> currentPhase ps' \<in> {Requirements, Design, Tasks, Complete})
       \<and> (\<exists>ps'. getProjectSession
                    (memoryManager (snd (snd (POST env req (serve before st))))) sid = Some ps'
               \<and> (currentPhase ps' = currentPhase ps
                    \<or> phaseIndex (currentPhase ps') = phaseIndex (currentPhase ps) + 1))"
proof
  have "phaseNotBehind (memoryManager (serve before st))
          (memoryManager (serve after (serve before st)))"
    by (rule serve_phaseNotBehind)
  with assms obtain ps' where
    "getProjectSession (memoryManager (serve (before @ after) st)) sid = Some ps'"
    "phaseIndex (currentPhase ps) \<le> phaseIndex (currentPhase ps')"
    unfolding phaseNotBehind_def serve_append by blast
  moreover have "currentPhase ps' \<in> {Requirements, Design, Tasks, Complete}"
    by (cases "currentPhase ps'") simp_all
  ultimately show "\<exists>ps'. getProjectSession (memoryManager (serve (before @ after) st)) sid = Some ps'
               \<and> phaseIndex (currentPhase ps) \<le> phaseIndex (currentPhase ps')
               \<and> currentPhase ps' \<in> {Requirements, Design, Tasks, Complete}"
    by blast
next
  show "\<exists>ps'. getProjectSession
                    (memoryManager (snd (snd (POST env req (serve before st))))) sid = Some ps'
               \<and> (currentPhase ps' = currentPhase ps
                    \<or> phaseIndex (currentPhase ps') = phaseIndex (currentPhase ps) + 1)"
    using assms by (rule POST_step)
qed

theorem currentPhase_never_regresses_witness:
  "getProjectSession (memoryManager (serve [] (coldRoute requirementsReadyManager))) ''s1''
     = Some requirementsReadySession
   \<and> (\<exists>ps'. getProjectSession
               (memoryManager (serve ([] @ [(okEnv, Inr followUp)]) (coldRoute requirementsReadyManager)))
               ''s1'' = Some ps'
          \<and> phaseIndex (currentPhase requirementsReadySession) \<le> phaseIndex (currentPhase ps'))"
proof -
  have h: "getProjectSession (memoryManager (serve [] (coldRoute requirementsReadyManager))) ''s1''
             = Some requirementsReadySession"
    by (simp add: coldRoute_def requirementsReady_session)
  show ?thesis
    using h currentPhase_never_regresses[OF h, of "[(okEnv, Inr followUp)]" okEnv "Inr followUp"]
    by blast
qed

text \<open>
  Claim C5.  A request that reaches the phase check with a project session in phase
  \<open>requirements\<close> (\<open>design\<close>, \<open>tasks\<close>) for which \<open>isPhaseComplete\<close> holds, and whose
  generation call succeeds, is answered with status 200, the reply followed by the
  transition note of that phase, a document of that phase's type holding the generated
  text, and the project session as it is afterwards; that project session is the one before
  with \<open>currentPhase\<close> moved to \<open>design\<close> (\<open>tasks\<close>, \<open>complete\<close>) and its update and
  phase-change times set.
\<close>

theorem generation_success_advances:
  fixes env :: Env and st st1 :: Route and reqBody :: RequestBody
  defines "result \<equiv> POST env (Inr reqBody) st"
  assumes key: "apiKey env"
      and init: "initializeAgents env st = (None, st1)"
      and dg: "documentGenerator st1"
      and msgs: "messages reqBody = Some msgs" "msgs \<noteq> []"
      and sid: "sid = effectiveSessionId (rb_sessionId reqBody) (dateNow env 0)"
      and ps: "getProjectSession (memoryManager st) sid = Some ps"
      and ch: "chat env (userText (last msgs)) sid
             (getConversationHistory
                (addMessage sid User (userText (last msgs)) (dateNow env 2) (memoryManager st)) sid)
           = Inr reply"
      and tab: "(currentPhase ps, call, note, nxt) \<in>
                 {(Requirements, GenerateRequirements ps, requirementsNote, Design),
                  (Design, GenerateDesign (techStackStr ps) ps, designNote, Tasks),
                  (Tasks, GenerateTasks ''Design document'' ''Requirements document'', tasksNote, Complete)}"
      and pc: "isPhaseComplete (memoryManager st) sid (currentPhase ps)"
      and gen: "generate env call = Inr doc"
  shows "\<exists>rd ps'. fst result = \<lparr>status = 200, body = MessageJson rd\<rparr>
           \<and> rd_content rd = reply @ note
           \<and> document rd = Some (currentPhase ps, doc)
           \<and> rd_projectSession rd = Some ps'
           \<and> fst (snd result) = [call]
           \<and> getProjectSession (memoryManager (snd (snd result))) sid = Some ps'
           \<and> ps' = ps\<lparr>currentPhase := nxt,
                       ps_metadata := (ps_metadata ps)\<lparr>pm_updatedAt := dateNow env 5,
                                         lastPhaseChange := dateNow env 5\<rparr>\<rparr>
           \<and> currentPhase ps' = nxt"
proof -
  define m2 where "m2 = addMessage sid User (userText (last msgs)) (dateNow env 2) (memoryManager st)"
  have st1: "agent st1" "memoryManager st1 = memoryManager st"
    using initializeAgents_ok[OF init] by simp_all
  have p2: "getProjectSession m2 sid = Some ps"
    unfolding m2_def using ps by simp
  have pc2: "isPhaseComplete m2 sid (currentPhase ps)"
    unfolding m2_def using pc by simp
  obtain m' where
    g: "generateDocuments env sid ps reply m2 = (reply @ note, Some (currentPhase ps, doc), [call], m')"
    and g': "getProjectSession m' sid
                 = Some (ps\<lparr>currentPhase := nxt,
                           ps_metadata := (ps_metadata ps)\<lparr>pm_updatedAt := dateNow env 5,
                                             lastPhaseChange := dateNow env 5\<rparr>\<rparr>)"
    using generateDocuments_success[OF p2 tab pc2 gen, of reply] by blast
  have gd: "(if documentGenerator st1 then generateDocuments env sid ps reply m2
               else (reply, None, [], m2)) = (reply @ note, Some (currentPhase ps, doc), [call], m')"
    using dg g by simp
  have "result = processMessages env msgs (rb_sessionId reqBody) st1"
    unfolding result_def using key init msgs by (rule POST_processes)
  also have "\<dots> = (\<lparr>status = 200,
             body = MessageJson
               \<lparr>rd_id = ''msg-'' @ showInt (dateNow env 7), rd_role = Assistant,
                rd_content = reply @ note,
                rd_parts = [\<lparr>p_type = ''text'', p_text = Some (reply @ note)\<rparr>],
                document = Some (currentPhase ps, doc),
                rd_projectSession =
                  (if Some (currentPhase ps, doc) \<noteq> None
                   then getProjectSession (addMessage sid Assistant (reply @ note) (dateNow env 6) m') sid
                   else None)\<rparr>\<rparr>,
            [call],
            st1\<lparr>memoryManager := addMessage sid Assistant (reply @ note) (dateNow env 6) m'\<rparr>)"
    by (rule processMessages_existing[OF st1(1) sid _ _ _ gd])
       (simp_all add: st1(2) ps ch m2_def)
  finally show ?thesis
    using g' by simp
qed

theorem generation_success_advances_witness:
  "getProjectSession requirementsReadyManager ''s1'' = Some requirementsReadySession
   \<and> isPhaseComplete requirementsReadyManager ''s1'' Requirements
   \<and> (\<exists>rd ps'. fst (POST okEnv (Inr followUp) (coldRoute requirementsReadyManager))
                    = \<lparr>status = 200, body = MessageJson rd\<rparr>
          \<and> rd_content rd = ''Tell me more.'' @ requirementsNote
          \<and> document rd = Some (Requirements, ''# Document'')
          \<and> rd_projectSession rd = Some ps'
          \<and> getProjectSession
               (memoryManager (snd (snd (POST okEnv (Inr followUp) (coldRoute requirementsReadyManager)))))
               ''s1'' = Some ps'
          \<and> currentPhase ps' = Design)"
proof -
  have key: "apiKey okEnv" by (simp add: okEnv_def)
  have dg: "documentGenerator \<lparr>agent = True, documentGenerator = True,
                                memoryManager = requirementsReadyManager\<rparr>" by simp
  have ne: "[userSays ''I want to build a task app'', userSays ''For students''] \<noteq> []" by simp
  have sid: "''s1'' = effectiveSessionId (rb_sessionId followUp) (dateNow okEnv 0)"
    by (simp add: followUp_facts)
  have ps: "getProjectSession (memoryManager (coldRoute requirementsReadyManager)) ''s1''
              = Some requirementsReadySession"
    by (simp add: coldRoute_def requirementsReady_session)
  have ch: "chat okEnv u s h = Inr ''Tell me more.''" for u s h
    by (simp add: okEnv_def)
  have tab: "(currentPhase requirementsReadySession, GenerateRequirements requirementsReadySession,
              requirementsNote, Design) \<in>
                 {(Requirements, GenerateRequirements requirementsReadySession, requirementsNote, Design),
                  (Design, GenerateDesign (techStackStr requirementsReadySession) requirementsReadySession,
                   designNote, Tasks),
                  (Tasks, GenerateTasks ''Design document'' ''Requirements document'', tasksNote, Complete)}"
    by (simp add: requirementsReady_phase)
  have pc: "isPhaseComplete (memoryManager (coldRoute requirementsReadyManager)) ''s1''
              (currentPhase requirementsReadySession)"
    by (simp add: coldRoute_def requirementsReady_phase requirementsReady_complete)
  have gen: "generate okEnv (GenerateRequirements requirementsReadySession) = Inr ''# Document''"
    by (simp add: okEnv_def)
  show ?thesis
    using generation_success_advances
            [OF key initializeAgents_cold(1) dg followUp_facts(1) ne sid ps ch tab pc gen]
          requirementsReady_session requirementsReady_complete
    by (auto simp: requirementsReady_phase)
qed

text \<open>
  Claim C4.  When the generation call of the phase-completion branch throws, the request
  is still answered with status 200 and the plain reply, with no document and no project
  session in the body; the project session is exactly as before the request (no payload
  stored, phase not advanced), so the completion check still holds for the next request.
\<close>

theorem generation_failure_recovered:
  fixes env :: Env and st st1 :: Route and reqBody :: RequestBody
  defines "result \<equiv> POST env (Inr reqBody) st"
  assumes key: "apiKey env"
      and init: "initializeAgents env st = (None, st1)"
      and dg: "documentGenerator st1"
      and msgs: "messages reqBody = Some msgs" "msgs \<noteq> []"
      and sid: "sid = effectiveSessionId (rb_sessionId reqBody) (dateNow env 0)"
      and ps: "getProjectSession (memoryManager st) sid = Some ps"
      and ch: "chat env (userText (last msgs)) sid
             (getConversationHistory
                (addMessage sid User (userText (last msgs)) (dateNow env 2) (memoryManager st)) sid)
           = Inr reply"
      and tab: "(currentPhase ps, call) \<in>
                 {(Requirements, GenerateRequirements ps),
                  (Design, GenerateDesign (techStackStr ps) ps),
                  (Tasks, GenerateTasks ''Design document'' ''Requirements document'')}"
      and pc: "isPhaseComplete (memoryManager st) sid (currentPhase ps)"
      and gen: "generate env call = Inl e"
  shows "\<exists>rd. fst result = \<lparr>status = 200, body = MessageJson rd\<rparr>
           \<and> rd_content rd = reply
           \<and> document rd = None
           \<and> rd_projectSession rd = None
           \<and> fst (snd result) = [call]
           \<and> getProjectSession (memoryManager (snd (snd result))) sid = Some ps
           \<and> isPhaseComplete (memoryManager (snd (snd result))) sid (currentPhase ps)"
proof -
  define m2 where "m2 = addMessage sid User (userText (last msgs)) (dateNow env 2) (memoryManager st)"
  have st1: "agent st1" "memoryManager st1 = memoryManager st"
    using initializeAgents_ok[OF init] by simp_all
  have p2: "getProjectSession m2 sid = Some ps"
    unfolding m2_def using ps by simp
  have pc2: "isPhaseComplete m2 sid (currentPhase ps)"
    unfolding m2_def using pc by simp
  have gd: "(if documentGenerator st1 then generateDocuments env sid ps reply m2
               else (reply, None, [], m2)) = (reply, None, [call], m2)"
    using dg generateDocuments_failure[OF tab pc2 gen, of reply] by simp
  have "result = processMessages env msgs (rb_sessionId reqBody) st1"
    unfolding result_def using key init msgs by (rule POST_processes)
  also have "\<dots> = (\<lparr>status = 200,
             body = MessageJson
               \<lparr>rd_id = ''msg-'' @ showInt (dateNow env 7), rd_role = Assistant,
                rd_content = reply,
                rd_parts = [\<lparr>p_type = ''text'', p_text = Some reply\<rparr>],
                document = None,
                rd_projectSession =
                  (if (None :: (ProjectPhase \<times> string) option) \<noteq> None
                   then getProjectSession (addMessage sid Assistant reply (dateNow env 6) m2) sid
                   else None)\<rparr>\<rparr>,
            [call],
            st1\<lparr>memoryManager := addMessage sid Assistant reply (dateNow env 6) m2\<rparr>)"
    by (rule processMessages_existing[OF st1(1) sid _ _ _ gd])
       (simp_all add: st1(2) ps ch m2_def)
  finally show ?thesis
    using p2 pc2 by simp
qed

theorem generation_failure_recovered_witness:
  "getProjectSession requirementsReadyManager ''s1'' = Some requirementsReadySession
   \<and> isPhaseComplete requirementsReadyManager ''s1'' Requirements
   \<and> (\<exists>rd. fst (POST throwingEnv (Inr followUp) (coldRoute requirementsReadyManager))
                = \<lparr>status = 200, body = MessageJson rd\<rparr>
          \<and> rd_content rd = ''Tell me more.''
          \<and> document rd = None
          \<and> rd_projectSession rd = None
          \<and> getProjectSession
               (memoryManager (snd (snd (POST throwingEnv (Inr followUp) (coldRoute requirementsReadyManager)))))
               ''s1'' = Some requirementsReadySession)"
proof -
  have key: "apiKey throwingEnv" by (simp add: throwingEnv_def okEnv_def)
  have dg: "documentGenerator \<lparr>agent = True, documentGenerator = True,
                                memoryManager = requirementsReadyManager\<rparr>" by simp
  have ne: "[userSays ''I want to build a task app'', userSays ''For students''] \<noteq> []" by simp
  have sid: "''s1'' = effectiveSessionId (rb_sessionId followUp) (dateNow throwingEnv 0)"
    by (simp add: followUp_facts)
  have ps: "getProjectSession (memoryManager (coldRoute requirementsReadyManager)) ''s1''
              = Some requirementsReadySession"
    by (simp add: coldRoute_def requirementsReady_session)
  have ch: "chat throwingEnv u s h = Inr ''Tell me more.''" for u s h
    by (simp add: throwingEnv_def okEnv_def)
  have tab: "(currentPhase requirementsReadySession, GenerateRequirements requirementsReadySession) \<in>
                 {(Requirements, GenerateRequirements requirementsReadySession),
                  (Design, GenerateDesign (techStackStr requirementsReadySession) requirementsReadySession),
                  (Tasks, GenerateTasks ''Design document'' ''Requirements document'')}"
    by (simp add: requirementsReady_phase)
  have pc: "isPhaseComplete (memoryManager (coldRoute requirementsReadyManager)) ''s1''
              (currentPhase requirementsReadySession)"
    by (simp add: coldRoute_def requirementsReady_phase requirementsReady_complete)
  have gen: "generate throwingEnv (GenerateRequirements requirementsReadySession)
               = Inl (ErrorObj ''model unavailable'')"
    by (simp add: throwingEnv_def okEnv_def)
  show ?thesis
    using generation_failure_recovered
            [OF key initializeAgents_cold(2) dg followUp_facts(1) ne sid ps ch tab pc gen]
          requirementsReady_session requirementsReady_complete
    by auto
qed

text \<open>
  Claim C9.  Every request that reaches the tasks branch of the phase check invokes
  \<open>generateTasks\<close> with the two literal strings \<open>Design document\<close> and
  \<open>Requirements document\<close>, whatever design and requirements payloads the project session
  holds; it is the only generator call of the request.
\<close>

theorem tasks_generation_uses_placeholders:
  assumes key: "apiKey env"
      and init: "initializeAgents env st = (None, st1)"
      and dg: "documentGenerator st1"
      and msgs: "messages reqBody = Some msgs" "msgs \<noteq> []"
      and sid: "sid = effectiveSessionId (rb_sessionId reqBody) (dateNow env 0)"
      and ps: "getProjectSession (memoryManager st) sid = Some ps"
      and ch: "chat env (userText (last msgs)) sid
             (getConversationHistory
                (addMessage sid User (userText (last msgs)) (dateNow env 2) (memoryManager st)) sid)
           = Inr reply"
      and ph: "currentPhase ps = Tasks"
      and pc: "isPhaseComplete (memoryManager st) sid Tasks"
  shows "fst (snd (POST env (Inr reqBody) st))
           = [GenerateTasks ''Design document'' ''Requirements document'']"
proof -
  define m2 where "m2 = addMessage sid User (userText (last msgs)) (dateNow env 2) (memoryManager st)"
  have st1: "agent st1" "memoryManager st1 = memoryManager st"
    using initializeAgents_ok[OF init] by simp_all
  have pc2: "isPhaseComplete m2 sid Tasks"
    unfolding m2_def using pc by simp
  obtain r d c m4 where g: "generateDocuments env sid ps reply m2 = (r, d, c, m4)"
    by (cases "generateDocuments env sid ps reply m2") auto
  have c: "c = [GenerateTasks ''Design document'' ''Requirements document'']"
    using generateDocuments_tasks_call[OF ph pc2, of env reply] g by simp
  have gd: "(if documentGenerator st1 then generateDocuments env sid ps reply m2
               else (reply, None, [], m2)) = (r, d, c, m4)"
    using dg g by simp
  have "POST env (Inr reqBody) st = processMessages env msgs (rb_sessionId reqBody) st1"
    using key init msgs by (rule POST_processes)
  also have "fst (snd \<dots>) = c"
    by (subst processMessages_existing[OF st1(1) sid _ _ _ gd])
       (simp_all add: st1(2) ps ch m2_def)
  finally show ?thesis using c by simp
qed

theorem tasks_generation_uses_placeholders_witness:
  "getProjectSession tasksReadyManager ''s1'' = Some tasksReadySession
   \<and> currentPhase tasksReadySession = Tasks
   \<and> isPhaseComplete tasksReadyManager ''s1'' Tasks
   \<and> fst (snd (POST okEnv (Inr followUp) (coldRoute tasksReadyManager)))
        = [GenerateTasks ''Design document'' ''Requirements document'']"
proof -
  have key: "apiKey okEnv" by (simp add: okEnv_def)
  have dg: "documentGenerator \<lparr>agent = True, documentGenerator = True,
                                memoryManager = tasksReadyManager\<rparr>" by simp
  have ne: "[userSays ''I want to build a task app'', userSays ''For students''] \<noteq> []" by simp
  have sid: "''s1'' = effectiveSessionId (rb_sessionId followUp) (dateNow okEnv 0)"
    by (simp add: followUp_facts)
  have ps: "getProjectSession (memoryManager (coldRoute tasksReadyManager)) ''s1''
              = Some tasksReadySession"
    by (simp add: coldRoute_def tasksReady_session)
  have ch: "chat okEnv u s h = Inr ''Tell me more.''" for u s h
    by (simp add: okEnv_def)
  have pc: "isPhaseComplete (memoryManager (coldRoute tasksReadyManager)) ''s1'' Tasks"
    by (simp add: coldRoute_def tasksReady_complete)
  show ?thesis
    using tasks_generation_uses_placeholders
            [OF key initializeAgents_cold(1) dg followUp_facts(1) ne sid ps ch tasksReady_phase pc]
          tasksReady_session tasksReady_phase tasksReady_complete
    by simp
qed

text \<open>
  Claim C7, as the code has it.  For a request whose \<open>messages\<close> is missing or empty the
  manager is left exactly as it was and no generator is called.  The answer is the client
  error (status 400) when an API key is configured and the agents initialise; the check of
  the API key and \<open>initializeAgents\<close> come first, and answer with status 500 otherwise.
\<close>

theorem no_messages_no_session_change:
  assumes "messages reqBody = None \<or> messages reqBody = Some []"
  shows "memoryManager (snd (snd (POST env (Inr reqBody) st))) = memoryManager st
       \<and> fst (snd (POST env (Inr reqBody) st)) = []
       \<and> fst (POST env (Inr reqBody) st)
           = (if \<not> apiKey env then apiKeyResponse
              else case fst (initializeAgents env st) of
                     Some e \<Rightarrow> errorResponse e
                   | None \<Rightarrow> noMessagesResponse)
       \<and> status (fst (POST env (Inr reqBody) st))
           = (if apiKey env \<and> fst (initializeAgents env st) = None then 400 else 500)"
proof -
  obtain thrown st1 where ia: "initializeAgents env st = (thrown, st1)"
    by (cases "initializeAgents env st")
  have m: "memoryManager st1 = memoryManager st"
    using ia by (auto simp: initializeAgents_def split: if_splits)
  show ?thesis
    using assms m unfolding POST_def ia
    by (auto simp: apiKeyResponse_def errorResponse_def noMessagesResponse_def
             split: option.splits)
qed

theorem no_messages_no_session_change_witness:
  "messages emptyRequest = Some []
   \<and> memoryManager (snd (snd (POST okEnv (Inr emptyRequest) (coldRoute requirementsReadyManager))))
        = requirementsReadyManager
   \<and> status (fst (POST okEnv (Inr emptyRequest) (coldRoute requirementsReadyManager))) = 400"
proof -
  have e: "messages emptyRequest = None \<or> messages emptyRequest = Some []"
    by (simp add: emptyRequest_def)
  have k: "apiKey okEnv" by (simp add: okEnv_def)
  have i: "fst (initializeAgents okEnv (coldRoute requirementsReadyManager)) = None"
    by (simp add: initializeAgents_cold(1))
  have m: "memoryManager (coldRoute requirementsReadyManager) = requirementsReadyManager"
    by (simp add: coldRoute_def)
  have s: "messages emptyRequest = Some []"
    by (simp add: emptyRequest_def)
  show ?thesis
    using no_messages_no_session_change[OF e, of okEnv "coldRoute requirementsReadyManager"] k i m s
    by (simp add: noMessagesResponse_def)
qed

text \<open>
  Claim C7 as stated fails: with no API key configured, a request with an empty message list
  is answered with status 500, not with a client error.
\<close>

theorem no_messages_without_api_key:
  "status (fst (POST noKeyEnv (Inr emptyRequest) (coldRoute requirementsReadyManager))) = 500"
  by (simp add: POST_def noKeyEnv_def okEnv_def apiKeyResponse_def)

end
